theory Spec2Isabelle
  imports Complex_Main
begin

section \<open>The JavaScript values and built-ins the orchestrator relies on\<close>

text \<open>
  A value that was thrown and later caught. The catch blocks of the orchestrator only ask
  whether the value is an \<open>Error\<close> instance and, if so, read its message.
\<close>

datatype thrown = Error string | NonError

text \<open>\<^verbatim>\<open>error instanceof Error ? error.message : 'Unknown error'\<close>\<close>

fun catch_message :: "thrown \<Rightarrow> string" where
  "catch_message (Error m) = m"
| "catch_message NonError = ''Unknown error''"

text \<open>
  A \<open>Date\<close> object holds a time value in milliseconds, or is invalid. \<open>new_Date\<close> is the
  constructor applied to a number: time values beyond 8.64e15 ms give an invalid date.
\<close>

datatype Date = Date int | InvalidDate

definition new_Date :: "int \<Rightarrow> Date" where
  "new_Date t = (if \<bar>t\<bar> \<le> 8640000000000000 then Date t else InvalidDate)"

text \<open>
  Data values of type \<open>unknown\<close> (request contexts, metadata, handler inputs): the
  values that JSON can carry, and \<open>undefined\<close>. The type \<open>'n\<close> stands for JavaScript
  numbers (IEEE-754 doubles).
\<close>

datatype 'n jsval =
    JUndefined
  | JNull
  | JBoolean bool
  | JNumber 'n
  | JString string
  | JArray "'n jsval list"
  | JObject "(string \<times> 'n jsval) list"

text \<open>
  The built-ins of the JavaScript runtime that the code calls are parameters of the model:
  the arithmetic and comparison of doubles, the double denoted by a decimal literal, which
  numbers are falsy (zero and NaN), which characters \<open>trim\<close> removes, the clock behind
  \<open>new Date()\<close> and \<open>Date.now()\<close> (reading it may change the outside world \<open>'w\<close>, since time
  passes), \<open>Date.prototype.toISOString\<close> and the date parser behind \<open>new Date(string)\<close>.
  Everything proved below holds for every such runtime.
\<close>

record ('n, 'w) runtime =
  num_of_rat :: "rat \<Rightarrow> 'n"
  num_times :: "'n \<Rightarrow> 'n \<Rightarrow> 'n"
  num_gt :: "'n \<Rightarrow> 'n \<Rightarrow> bool"
  num_falsy :: "'n \<Rightarrow> bool"
  isWhiteSpace :: "char \<Rightarrow> bool"
  clock :: "'w \<Rightarrow> int \<times> 'w"
  toISOString :: "int \<Rightarrow> string"
  Date_parse :: "string \<Rightarrow> Date"

text \<open>\<^verbatim>\<open>x || d\<close> for an optional string: the empty string is falsy, as \<open>undefined\<close> is.\<close>

definition or_default :: "string option \<Rightarrow> string \<Rightarrow> string" where
  "or_default x d = (case x of None \<Rightarrow> d | Some m \<Rightarrow> if m = [] then d else m)"

text \<open>\<^verbatim>\<open>Array.prototype.join\<close> on an array of strings.\<close>

fun join :: "string \<Rightarrow> string list \<Rightarrow> string" where
  "join sep [] = []"
| "join sep [x] = x"
| "join sep (x # y # ys) = x @ sep @ join sep (y # ys)"

text \<open>
  \<^verbatim>\<open>Array.from(new Set(xs))\<close>: a \<open>Set\<close> keeps each element once, in the order of first
  insertion.
\<close>

definition Set_add :: "'a list \<Rightarrow> 'a \<Rightarrow> 'a list" where
  "Set_add seen x = (if x \<in> set seen then seen else seen @ [x])"

definition Array_from_Set :: "'a list \<Rightarrow> 'a list" where
  "Array_from_Set xs = foldl Set_add [] xs"

text \<open>\<^verbatim>\<open>Array.prototype.flat\<close> on an array of arrays (depth 1).\<close>

definition flat :: "'a list list \<Rightarrow> 'a list" where
  "flat xss = concat xss"

text \<open>
  Decimal rendering of an integer, as a template literal renders the integral number that
  \<open>Date.now()\<close> returns.
\<close>

definition digit_char :: "nat \<Rightarrow> char" where
  "digit_char d = char_of (48 + d)"

function string_of_nat :: "nat \<Rightarrow> string" where
  "string_of_nat n =
     (if n < 10 then [digit_char n] else string_of_nat (n div 10) @ [digit_char (n mod 10)])"
  by pat_completeness auto
termination
  by (relation "measure id") auto

declare string_of_nat.simps [simp del]

definition Number_toString :: "int \<Rightarrow> string" where
  "Number_toString i = (if i < 0 then ''-'' @ string_of_nat (nat (- i)) else string_of_nat (nat i))"

text \<open>
  \<^verbatim>\<open>String.prototype.trim\<close>: white space is removed from both ends. A character of
  the model stands for one code unit of the JavaScript string.
\<close>

definition trim :: "('n, 'w) runtime \<Rightarrow> string \<Rightarrow> string" where
  "trim rt s = rev (dropWhile (isWhiteSpace rt) (rev (dropWhile (isWhiteSpace rt) s)))"

fun truthy :: "('n, 'w) runtime \<Rightarrow> 'n jsval \<Rightarrow> bool" where
  "truthy rt JUndefined = False"
| "truthy rt JNull = False"
| "truthy rt (JBoolean b) = b"
| "truthy rt (JNumber n) = (\<not> num_falsy rt n)"
| "truthy rt (JString s) = (s \<noteq> [])"
| "truthy rt (JArray xs) = True"
| "truthy rt (JObject kvs) = True"

fun typeof :: "'n jsval \<Rightarrow> string" where
  "typeof JUndefined = ''undefined''"
| "typeof JNull = ''object''"
| "typeof (JBoolean b) = ''boolean''"
| "typeof (JNumber n) = ''number''"
| "typeof (JString s) = ''string''"
| "typeof (JArray xs) = ''object''"
| "typeof (JObject kvs) = ''object''"

fun Array_isArray :: "'n jsval \<Rightarrow> bool" where
  "Array_isArray (JArray xs) = True"
| "Array_isArray v = False"

text \<open>
  Reading a named property of a value that is neither \<open>null\<close> nor \<open>undefined\<close>. Only plain
  objects carry the properties that the handlers read; an absent property is \<open>undefined\<close>.
\<close>

fun getProp :: "'n jsval \<Rightarrow> string \<Rightarrow> 'n jsval" where
  "getProp (JObject kvs) k = (case map_of kvs k of None \<Rightarrow> JUndefined | Some v \<Rightarrow> v)"
| "getProp v k = JUndefined"


section \<open>Data contracts (types.ts)\<close>

record 'n GovernanceRequest =
  requestId :: string
  resourceId :: string
  action :: string
  principal :: string
  context' :: "(string \<times> 'n jsval) list option"

record PolicyEvaluationResult =
  allowed :: bool
  policies :: "string list"
  reasons :: "string list"

record 'n FinOpsSummary =
  resourceId :: string
  currentCost :: 'n
  forecast :: 'n
  budgetStatus :: string

text \<open>
  \<open>extension\<close> holds the fields admitted by the index signature of \<open>AuditSignal\<close>.
\<close>

record 'n AuditSignal =
  timestamp :: string
  action :: string
  principal :: string
  resource :: string
  outcome :: string
  metadata :: "(string \<times> 'n jsval) list option"
  extension :: "(string \<times> 'n jsval) list"

record 'n GovernanceDecision =
  requestId :: string
  allowed :: bool
  policyResults :: PolicyEvaluationResult
  costImpact :: "'n FinOpsSummary option"
  auditId :: string

record RBACContext =
  principal :: string
  roles :: "string list"
  permissions :: "string list"
  scope :: "string option"


section \<open>Adapter contracts (adapters)\<close>

record 'd AdapterResponse =
  success :: bool
  data :: "'d option"
  error :: "string option"

record 'n CostMetrics =
  totalCost :: 'n
  currency :: string
  period :: "Date \<times> Date"
  breakdown :: "(string \<times> 'n) list"

record 'n CostForecast =
  projectedCost :: 'n
  confidence :: 'n
  period :: "Date \<times> Date"

record CostMetricsFilters =
  startDate :: Date
  endDate :: Date
  services :: "string list option"
  groupBy :: "string list option"

record 'n ForecastParams =
  horizon :: 'n
  services :: "string list option"

datatype severity = info | warning | error | critical

record 'n GovernanceEvent =
  eventType :: string
  severity :: severity
  timestamp :: Date
  details :: "'n AuditSignal"
  correlationId :: "string option"

record 'n PolicyEvaluationRequest =
  principal :: string
  action :: string
  resource :: string
  context' :: "(string \<times> 'n jsval) list"

text \<open>The policy engine's own result type, which the orchestrator projects.\<close>

record 'n PolicyEngineResult =
  allowed :: bool
  reasons :: "string list"
  appliedPolicies :: "string list"
  conditions :: "(string \<times> 'n jsval) list option"

record 'n AnalyticsEvent =
  eventName :: string
  timestamp :: Date
  properties :: "(string \<times> 'n jsval) list"
  userId :: "string option"
  sessionId :: "string option"

text \<open>
  \<open>ConfigValue.value\<close> is declared \<open>unknown\<close>; \<open>resolveRBAC\<close> reads it under the type
  assertions \<^verbatim>\<open>{ roles?: string[] }\<close> and \<^verbatim>\<open>{ permissions?: string[] }\<close>, guarded by
  \<open>?.\<close>. The model gives it those shapes: \<open>null\<close>/\<open>undefined\<close>, or an object in which
  each of the two fields is absent or an array of strings.
\<close>

datatype config_value =
    Nullish
  | Fields (roles_field: "string list option") (permissions_field: "string list option")

record ConfigValue =
  key :: string
  value' :: config_value
  version :: string
  lastUpdated :: Date

record ValidationError =
  path :: string
  message :: string

record ValidationResult =
  valid :: bool
  errors :: "ValidationError list"

text \<open>
  A collaborator call: it reads and changes the outside world, and either throws (the
  promise rejects) or returns a result envelope. A call is one step: calls that
  \<open>Promise.all\<close> awaits together are made one after the other, in the order in which the
  code starts them. Only the operations the orchestrator consumes are listed.
\<close>

type_synonym ('a, 'w) call = "'w \<Rightarrow> (thrown + 'a AdapterResponse) \<times> 'w"

record ('n, 'w) ICostOpsAdapter =
  getCostMetrics :: "CostMetricsFilters \<Rightarrow> ('n CostMetrics, 'w) call"
  getForecast :: "'n ForecastParams \<Rightarrow> ('n CostForecast, 'w) call"

record ('n, 'w) IGovernanceDashboardAdapter =
  publishEvent :: "'n GovernanceEvent \<Rightarrow> (unit, 'w) call"

record ('n, 'w) IPolicyEngineAdapter =
  evaluatePolicy :: "'n PolicyEvaluationRequest \<Rightarrow> ('n PolicyEngineResult, 'w) call"

record ('n, 'w) IAnalyticsHubAdapter =
  track :: "'n AnalyticsEvent \<Rightarrow> (unit, 'w) call"

record 'w IConfigManagerAdapter =
  getConfig :: "string \<Rightarrow> (ConfigValue, 'w) call"

record ('n, 'w) ISchemaRegistryAdapter =
  validate :: "string \<Rightarrow> 'n AuditSignal \<Rightarrow> (ValidationResult, 'w) call"

record ('n, 'w) AdapterCollection =
  costOps :: "('n, 'w) ICostOpsAdapter"
  dashboard :: "('n, 'w) IGovernanceDashboardAdapter"
  policyEngine :: "('n, 'w) IPolicyEngineAdapter"
  analyticsHub :: "('n, 'w) IAnalyticsHubAdapter"
  configManager :: "'w IConfigManagerAdapter"
  schemaRegistry :: "('n, 'w) ISchemaRegistryAdapter"


section \<open>Effects: the outside world and the record of what was observed\<close>

text \<open>
  What the orchestrator does to its surroundings, in order: the collaborator calls it
  makes (with their arguments), the clock readings it takes, and the warnings it logs.
\<close>

datatype 'n event =
    CallEvaluatePolicy "'n PolicyEvaluationRequest"
  | CallGetCostMetrics CostMetricsFilters
  | CallGetForecast "'n ForecastParams"
  | CallTrack "'n AnalyticsEvent"
  | CallGetConfig string
  | CallValidate string "'n AuditSignal"
  | CallPublishEvent "'n GovernanceEvent"
  | ClockRead int
  | ConsoleWarn thrown

record ('n, 'w) state =
  world :: 'w
  trace :: "'n event list"

text \<open>Awaiting a collaborator call: the call is recorded and the world it leaves is kept.\<close>

definition invoke ::
  "'n event \<Rightarrow> ('w \<Rightarrow> 'r \<times> 'w) \<Rightarrow> ('n, 'w) state \<Rightarrow> 'r \<times> ('n, 'w) state" where
  "invoke ev f s = (case f (world s) of (r, w') \<Rightarrow> (r, \<lparr>world = w', trace = trace s @ [ev]\<rparr>))"

text \<open>\<open>Date.now()\<close>, and the time value of \<open>new Date()\<close>.\<close>

definition Date_now :: "('n, 'w) runtime \<Rightarrow> ('n, 'w) state \<Rightarrow> int \<times> ('n, 'w) state" where
  "Date_now rt s =
     (case clock rt (world s) of (t, w') \<Rightarrow> (t, \<lparr>world = w', trace = trace s @ [ClockRead t]\<rparr>))"

text \<open>
  \<open>Promise.all\<close> over calls that have all been started: it rejects with a rejection of one
  of them, and otherwise yields all results in order. The model takes the first rejection
  in array order.
\<close>

fun Promise_all :: "(thrown + 'a) list \<Rightarrow> thrown + 'a list" where
  "Promise_all [] = Inr []"
| "Promise_all (Inl e # rs) = Inl e"
| "Promise_all (Inr x # rs) = (case Promise_all rs of Inl e \<Rightarrow> Inl e | Inr xs \<Rightarrow> Inr (x # xs))"


section \<open>The orchestrator (GovernanceCore)\<close>

subsection \<open>getFinOpsSummary\<close>

text \<open>The body of the \<open>try\<close> block.\<close>

definition getFinOpsSummary_try ::
  "('n, 'w) runtime \<Rightarrow> ('n, 'w) AdapterCollection \<Rightarrow> string \<Rightarrow> ('n, 'w) state
     \<Rightarrow> (thrown + 'n FinOpsSummary) \<times> ('n, 'w) state" where
  "getFinOpsSummary_try rt adapters rid s0 =
     (case Date_now rt s0 of (now, s1) \<Rightarrow>
      let startDate = new_Date (now - 30 * 24 * 60 * 60 * 1000);
          filters = \<lparr>startDate = startDate, endDate = Date now,
                     CostMetricsFilters.services = Some [rid], groupBy = None\<rparr>;
          params = \<lparr>horizon = num_of_rat rt 30, ForecastParams.services = Some [rid]\<rparr>
      in
      case invoke (CallGetCostMetrics filters) (getCostMetrics (costOps adapters) filters) s1 of
        (metricsCall, s2) \<Rightarrow>
      case invoke (CallGetForecast params) (getForecast (costOps adapters) params) s2 of
        (forecastCall, s3) \<Rightarrow>
      (case metricsCall of
         Inl e \<Rightarrow> (Inl e, s3)
       | Inr metricsResponse \<Rightarrow>
      (case forecastCall of
         Inl e \<Rightarrow> (Inl e, s3)
       | Inr forecastResponse \<Rightarrow>
      (case (if success metricsResponse then data metricsResponse else None) of
         None \<Rightarrow> (Inl (Error (or_default (AdapterResponse.error metricsResponse)
                                  ''Failed to get cost metrics'')), s3)
       | Some metrics \<Rightarrow>
      (case (if success forecastResponse then data forecastResponse else None) of
         None \<Rightarrow> (Inl (Error (or_default (AdapterResponse.error forecastResponse)
                                  ''Failed to get cost forecast'')), s3)
       | Some fc \<Rightarrow>
      let currentCost = totalCost metrics;
          forecast = projectedCost fc;
          budgetStatus =
            (if num_gt rt forecast (num_times rt currentCost (num_of_rat rt (3 / 2)))
               then ''exceeded''
             else if num_gt rt forecast (num_times rt currentCost (num_of_rat rt (6 / 5)))
               then ''warning''
             else ''within'')
      in (Inr \<lparr>FinOpsSummary.resourceId = rid, currentCost = currentCost,
               forecast = forecast, budgetStatus = budgetStatus\<rparr>, s3))))))"

definition getFinOpsSummary ::
  "('n, 'w) runtime \<Rightarrow> ('n, 'w) AdapterCollection \<Rightarrow> string \<Rightarrow> ('n, 'w) state
     \<Rightarrow> (thrown + 'n FinOpsSummary) \<times> ('n, 'w) state" where
  "getFinOpsSummary rt adapters rid s0 =
     (case getFinOpsSummary_try rt adapters rid s0 of
        (Inl e, s) \<Rightarrow> (Inl (Error (''FinOps summary failed: '' @ catch_message e)), s)
      | (Inr summary, s) \<Rightarrow> (Inr summary, s))"


subsection \<open>emitAuditSignal\<close>

definition emitAuditSignal_try ::
  "('n, 'w) runtime \<Rightarrow> ('n, 'w) AdapterCollection \<Rightarrow> 'n AuditSignal \<Rightarrow> ('n, 'w) state
     \<Rightarrow> (thrown + unit) \<times> ('n, 'w) state" where
  "emitAuditSignal_try rt adapters signal s0 =
     (case invoke (CallValidate ''audit.signal.v1'' signal)
             (validate (schemaRegistry adapters) ''audit.signal.v1'' signal) s0 of
        (validationCall, s1) \<Rightarrow>
      (case validationCall of
         Inl e \<Rightarrow> (Inl e, s1)
       | Inr validationResponse \<Rightarrow>
           if \<not> success validationResponse
              \<or> \<not> (case data validationResponse of None \<Rightarrow> False | Some v \<Rightarrow> valid v)
           then
             let errors = (case data validationResponse of None \<Rightarrow> [] | Some v \<Rightarrow> errors v)
             in (Inl (Error (''Audit signal validation failed: ''
                              @ join '', '' (map message errors))), s1)
           else
             let ev = \<lparr>eventType = ''audit.signal'',
                        severity = (if outcome signal = ''denied'' then warning else info),
                        GovernanceEvent.timestamp = Date_parse rt (AuditSignal.timestamp signal),
                        details = signal,
                        correlationId = None\<rparr>
             in
             case invoke (CallPublishEvent ev) (publishEvent (dashboard adapters) ev) s1 of
               (published, s2) \<Rightarrow>
             (case published of
                Inl e \<Rightarrow> (Inl e, s2)
              | Inr response \<Rightarrow> (Inr (), s2))))"

definition emitAuditSignal ::
  "('n, 'w) runtime \<Rightarrow> ('n, 'w) AdapterCollection \<Rightarrow> 'n AuditSignal \<Rightarrow> ('n, 'w) state
     \<Rightarrow> (thrown + unit) \<times> ('n, 'w) state" where
  "emitAuditSignal rt adapters signal s0 =
     (case emitAuditSignal_try rt adapters signal s0 of
        (Inl e, s) \<Rightarrow> (Inl (Error (''Audit signal emission failed: '' @ catch_message e)), s)
      | (Inr u, s) \<Rightarrow> (Inr u, s))"


subsection \<open>resolveRBAC\<close>

text \<open>\<^verbatim>\<open>(v as { roles?: string[] })?.roles || []\<close>, and the same for \<open>permissions\<close>.\<close>

definition rolesOf :: "config_value \<Rightarrow> string list" where
  "rolesOf v = (case v of Nullish \<Rightarrow> [] | Fields r p \<Rightarrow> (case r of None \<Rightarrow> [] | Some xs \<Rightarrow> xs))"

definition permissionsOf :: "config_value \<Rightarrow> string list" where
  "permissionsOf v =
     (case v of Nullish \<Rightarrow> [] | Fields r p \<Rightarrow> (case p of None \<Rightarrow> [] | Some xs \<Rightarrow> xs))"

text \<open>What the callback of \<open>roles.map\<close> returns once the lookup for one role has answered.\<close>

definition rolePermissions :: "ConfigValue AdapterResponse \<Rightarrow> string list" where
  "rolePermissions permConfig =
     (case (if success permConfig then data permConfig else None) of
        None \<Rightarrow> []
      | Some cv \<Rightarrow> permissionsOf (value' cv))"

text \<open>
  \<open>roles.map(async (role) => ...)\<close>: one lookup per role, started in the order of the roles.
  Every lookup is started, whether or not another one rejects.
\<close>

fun lookupPermissions ::
  "('n, 'w) AdapterCollection \<Rightarrow> string list \<Rightarrow> ('n, 'w) state
     \<Rightarrow> (thrown + string list) list \<times> ('n, 'w) state" where
  "lookupPermissions adapters [] s = ([], s)"
| "lookupPermissions adapters (role # rest) s =
     (case invoke (CallGetConfig (''rbac.permissions.'' @ role))
             (getConfig (configManager adapters) (''rbac.permissions.'' @ role)) s of
        (permCall, s1) \<Rightarrow>
      case lookupPermissions adapters rest s1 of
        (results, s2) \<Rightarrow>
      ((case permCall of Inl e \<Rightarrow> Inl e | Inr permConfig \<Rightarrow> Inr (rolePermissions permConfig))
         # results, s2))"

definition resolveRBAC_try ::
  "('n, 'w) AdapterCollection \<Rightarrow> string \<Rightarrow> ('n, 'w) state
     \<Rightarrow> (thrown + RBACContext) \<times> ('n, 'w) state" where
  "resolveRBAC_try adapters p s0 =
     (case invoke (CallGetConfig (''rbac.roles.'' @ p))
             (getConfig (configManager adapters) (''rbac.roles.'' @ p)) s0 of
        (rolesCall, s1) \<Rightarrow>
      (case rolesCall of
         Inl e \<Rightarrow> (Inl e, s1)
       | Inr rolesConfig \<Rightarrow>
      (case (if success rolesConfig then data rolesConfig else None) of
         None \<Rightarrow>
           (Inr \<lparr>RBACContext.principal = p, roles = [], permissions = [], scope = None\<rparr>, s1)
       | Some cv \<Rightarrow>
           let roles = rolesOf (value' cv) in
           case lookupPermissions adapters roles s1 of
             (results, s2) \<Rightarrow>
           (case Promise_all results of
              Inl e \<Rightarrow> (Inl e, s2)
            | Inr permissionSets \<Rightarrow>
                (Inr \<lparr>RBACContext.principal = p, roles = roles,
                       permissions = Array_from_Set (flat permissionSets),
                       scope = None\<rparr>, s2)))))"

definition resolveRBAC ::
  "('n, 'w) AdapterCollection \<Rightarrow> string \<Rightarrow> ('n, 'w) state
     \<Rightarrow> (thrown + RBACContext) \<times> ('n, 'w) state" where
  "resolveRBAC adapters p s0 =
     (case resolveRBAC_try adapters p s0 of
        (Inl e, s) \<Rightarrow> (Inl (Error (''RBAC resolution failed: '' @ catch_message e)), s)
      | (Inr c, s) \<Rightarrow> (Inr c, s))"


subsection \<open>evaluateGovernance\<close>

definition policyRequest_of :: "'n GovernanceRequest \<Rightarrow> 'n PolicyEvaluationRequest" where
  "policyRequest_of request =
     \<lparr>PolicyEvaluationRequest.principal = GovernanceRequest.principal request,
      PolicyEvaluationRequest.action = GovernanceRequest.action request,
      PolicyEvaluationRequest.resource = GovernanceRequest.resourceId request,
      PolicyEvaluationRequest.context' =
        (case GovernanceRequest.context' request of None \<Rightarrow> [] | Some c \<Rightarrow> c)\<rparr>"

definition policyResults_of :: "'n PolicyEngineResult \<Rightarrow> PolicyEvaluationResult" where
  "policyResults_of payload =
     \<lparr>PolicyEvaluationResult.allowed = PolicyEngineResult.allowed payload,
      policies = appliedPolicies payload,
      PolicyEvaluationResult.reasons = PolicyEngineResult.reasons payload\<rparr>"

definition analyticsEvent_of ::
  "'n GovernanceRequest \<Rightarrow> PolicyEvaluationResult \<Rightarrow> int \<Rightarrow> 'n AnalyticsEvent" where
  "analyticsEvent_of request verdict t =
     \<lparr>eventName = ''governance.evaluation'',
      AnalyticsEvent.timestamp = Date t,
      properties =
        [(''requestId'', JString (GovernanceRequest.requestId request)),
         (''resourceId'', JString (GovernanceRequest.resourceId request)),
         (''action'', JString (GovernanceRequest.action request)),
         (''principal'', JString (GovernanceRequest.principal request)),
         (''allowed'', JBoolean (PolicyEvaluationResult.allowed verdict))],
      userId = Some (GovernanceRequest.principal request),
      sessionId = None\<rparr>"

definition auditSignal_of ::
  "('n, 'w) runtime \<Rightarrow> 'n GovernanceRequest \<Rightarrow> PolicyEvaluationResult \<Rightarrow> int \<Rightarrow> 'n AuditSignal"
  where
  "auditSignal_of rt request verdict t =
     \<lparr>AuditSignal.timestamp = toISOString rt t,
      AuditSignal.action = GovernanceRequest.action request,
      AuditSignal.principal = GovernanceRequest.principal request,
      AuditSignal.resource = GovernanceRequest.resourceId request,
      outcome = (if PolicyEvaluationResult.allowed verdict then ''allowed'' else ''denied''),
      metadata =
        Some [(''requestId'', JString (GovernanceRequest.requestId request)),
              (''policies'', JArray (map JString (policies verdict))),
              (''reasons'', JArray (map JString (PolicyEvaluationResult.reasons verdict)))],
      extension = []\<rparr>"

text \<open>
  Steps 3 to 5 of the \<open>try\<close> block: the analytics event, the audit identifier and signal,
  and the decision. The result of \<open>track\<close> is awaited and not looked at.
\<close>

definition evaluateGovernance_report ::
  "('n, 'w) runtime \<Rightarrow> ('n, 'w) AdapterCollection \<Rightarrow> 'n GovernanceRequest
     \<Rightarrow> PolicyEvaluationResult \<Rightarrow> 'n FinOpsSummary option \<Rightarrow> ('n, 'w) state
     \<Rightarrow> (thrown + 'n GovernanceDecision) \<times> ('n, 'w) state" where
  "evaluateGovernance_report rt adapters request verdict cost s0 =
     (case Date_now rt s0 of (t1, s1) \<Rightarrow>
      let analyticsEvent = analyticsEvent_of request verdict t1 in
      case invoke (CallTrack analyticsEvent) (track (analyticsHub adapters) analyticsEvent) s1 of
        (tracked, s2) \<Rightarrow>
      (case tracked of
         Inl e \<Rightarrow> (Inl e, s2)
       | Inr response \<Rightarrow>
      (case Date_now rt s2 of (t2, s3) \<Rightarrow>
       let auditId = ''audit-'' @ GovernanceRequest.requestId request @ ''-'' @ Number_toString t2
       in
       case Date_now rt s3 of (t3, s4) \<Rightarrow>
       let auditSignal = auditSignal_of rt request verdict t3 in
       case emitAuditSignal rt adapters auditSignal s4 of
         (emitted, s5) \<Rightarrow>
       (case emitted of
          Inl e \<Rightarrow> (Inl e, s5)
        | Inr u \<Rightarrow>
            (Inr \<lparr>GovernanceDecision.requestId = GovernanceRequest.requestId request,
                   GovernanceDecision.allowed = PolicyEvaluationResult.allowed verdict,
                   policyResults = verdict,
                   costImpact = cost,
                   auditId = auditId\<rparr>, s5)))))"

text \<open>Steps 1 and 2 of the \<open>try\<close> block: the policy verdict and the cost summary.\<close>

definition evaluateGovernance_try ::
  "('n, 'w) runtime \<Rightarrow> ('n, 'w) AdapterCollection \<Rightarrow> 'n GovernanceRequest \<Rightarrow> ('n, 'w) state
     \<Rightarrow> (thrown + 'n GovernanceDecision) \<times> ('n, 'w) state" where
  "evaluateGovernance_try rt adapters request s0 =
     (let policyRequest = policyRequest_of request in
      case invoke (CallEvaluatePolicy policyRequest)
             (evaluatePolicy (policyEngine adapters) policyRequest) s0 of
        (policyCall, s1) \<Rightarrow>
      (case policyCall of
         Inl e \<Rightarrow> (Inl e, s1)
       | Inr policyResponse \<Rightarrow>
      (case (if success policyResponse then data policyResponse else None) of
         None \<Rightarrow> (Inl (Error (or_default (AdapterResponse.error policyResponse)
                                  ''Policy evaluation failed'')), s1)
       | Some payload \<Rightarrow>
           let verdict = policyResults_of payload in
           case getFinOpsSummary rt adapters (GovernanceRequest.resourceId request) s1 of
             (Inr finOpsSummary, s2) \<Rightarrow>
               evaluateGovernance_report rt adapters request verdict (Some finOpsSummary) s2
           | (Inl e, s2) \<Rightarrow>
               evaluateGovernance_report rt adapters request verdict None
                 (s2\<lparr>trace := trace s2 @ [ConsoleWarn e]\<rparr>))))"

definition evaluateGovernance ::
  "('n, 'w) runtime \<Rightarrow> ('n, 'w) AdapterCollection \<Rightarrow> 'n GovernanceRequest \<Rightarrow> ('n, 'w) state
     \<Rightarrow> (thrown + 'n GovernanceDecision) \<times> ('n, 'w) state" where
  "evaluateGovernance rt adapters request s0 =
     (case evaluateGovernance_try rt adapters request s0 of
        (Inl e, s) \<Rightarrow> (Inl (Error (''Governance evaluation failed: '' @ catch_message e)), s)
      | (Inr decision, s) \<Rightarrow> (Inr decision, s))"


section \<open>Request handlers (handlers/index.ts)\<close>

text \<open>
  The interface the handlers depend on: any object with the four operations, acting on
  a state of its own.
\<close>

record ('n, 's) GovernanceCore =
  core_evaluateGovernance ::
    "'n GovernanceRequest \<Rightarrow> 's \<Rightarrow> (thrown + 'n GovernanceDecision) \<times> 's"
  core_resolveRBAC :: "string \<Rightarrow> 's \<Rightarrow> (thrown + RBACContext) \<times> 's"
  core_getFinOpsSummary :: "string \<Rightarrow> 's \<Rightarrow> (thrown + 'n FinOpsSummary) \<times> 's"
  core_emitAuditSignal :: "'n AuditSignal \<Rightarrow> 's \<Rightarrow> (thrown + unit) \<times> 's"

definition createGovernanceCore ::
  "('n, 'w) runtime \<Rightarrow> ('n, 'w) AdapterCollection \<Rightarrow> ('n, ('n, 'w) state) GovernanceCore" where
  "createGovernanceCore rt adapters =
     \<lparr>core_evaluateGovernance = evaluateGovernance rt adapters,
      core_resolveRBAC = resolveRBAC adapters,
      core_getFinOpsSummary = getFinOpsSummary rt adapters,
      core_emitAuditSignal = emitAuditSignal rt adapters\<rparr>"

text \<open>\<^verbatim>\<open>v.trim() === ''\<close> for a value already known to be a string.\<close>

definition trimsToEmpty :: "('n, 'w) runtime \<Rightarrow> 'n jsval \<Rightarrow> bool" where
  "trimsToEmpty rt v = (case v of JString s \<Rightarrow> trim rt s = [] | _ \<Rightarrow> False)"

text \<open>\<^verbatim>\<open>!v || typeof v !== 'string' || v.trim() === ''\<close>\<close>

definition notNonEmptyString :: "('n, 'w) runtime \<Rightarrow> 'n jsval \<Rightarrow> bool" where
  "notNonEmptyString rt v = (\<not> truthy rt v \<or> typeof v \<noteq> ''string'' \<or> trimsToEmpty rt v)"

text \<open>
  \<^verbatim>\<open>v !== undefined && (typeof v !== 'object' || v === null || Array.isArray(v))\<close>
\<close>

definition notPlainObjectIfProvided :: "'n jsval \<Rightarrow> bool" where
  "notPlainObjectIfProvided v =
     (v \<noteq> JUndefined \<and> (typeof v \<noteq> ''object'' \<or> v = JNull \<or> Array_isArray v))"

text \<open>The validators return the error they throw, or \<open>None\<close> when they return normally.\<close>

definition validateGovernanceRequest :: "('n, 'w) runtime \<Rightarrow> 'n jsval \<Rightarrow> thrown option" where
  "validateGovernanceRequest rt request =
     (if \<not> truthy rt request \<or> typeof request \<noteq> ''object'' then
        Some (Error ''Invalid request: must be an object'')
      else if notNonEmptyString rt (getProp request ''requestId'') then
        Some (Error ''Invalid request: requestId must be a non-empty string'')
      else if notNonEmptyString rt (getProp request ''resourceId'') then
        Some (Error ''Invalid request: resourceId must be a non-empty string'')
      else if notNonEmptyString rt (getProp request ''action'') then
        Some (Error ''Invalid request: action must be a non-empty string'')
      else if notNonEmptyString rt (getProp request ''principal'') then
        Some (Error ''Invalid request: principal must be a non-empty string'')
      else if notPlainObjectIfProvided (getProp request ''context'') then
        Some (Error ''Invalid request: context must be an object if provided'')
      else None)"

definition validatePrincipal :: "('n, 'w) runtime \<Rightarrow> 'n jsval \<Rightarrow> thrown option" where
  "validatePrincipal rt p =
     (if typeof p \<noteq> ''string'' \<or> trimsToEmpty rt p then
        Some (Error ''Invalid principal: must be a non-empty string'')
      else None)"

definition validateResourceId :: "('n, 'w) runtime \<Rightarrow> 'n jsval \<Rightarrow> thrown option" where
  "validateResourceId rt rid =
     (if typeof rid \<noteq> ''string'' \<or> trimsToEmpty rt rid then
        Some (Error ''Invalid resourceId: must be a non-empty string'')
      else None)"

definition validateAuditSignal :: "('n, 'w) runtime \<Rightarrow> 'n jsval \<Rightarrow> thrown option" where
  "validateAuditSignal rt signal =
     (if \<not> truthy rt signal \<or> typeof signal \<noteq> ''object'' then
        Some (Error ''Invalid audit signal: must be an object'')
      else if notNonEmptyString rt (getProp signal ''timestamp'') then
        Some (Error ''Invalid audit signal: timestamp must be a non-empty string'')
      else if notNonEmptyString rt (getProp signal ''action'') then
        Some (Error ''Invalid audit signal: action must be a non-empty string'')
      else if notNonEmptyString rt (getProp signal ''principal'') then
        Some (Error ''Invalid audit signal: principal must be a non-empty string'')
      else if notNonEmptyString rt (getProp signal ''resource'') then
        Some (Error ''Invalid audit signal: resource must be a non-empty string'')
      else if notNonEmptyString rt (getProp signal ''outcome'') then
        Some (Error ''Invalid audit signal: outcome must be a non-empty string'')
      else if notPlainObjectIfProvided (getProp signal ''metadata'') then
        Some (Error ''Invalid audit signal: metadata must be an object if provided'')
      else None)"

text \<open>
  A value that passed validation is handed to the core under its asserted type. The
  model reads the typed record off the value; the fields it reads are strings and plain
  objects, as the validators have checked (see the section on boundary validation).
\<close>

definition stringOf :: "'n jsval \<Rightarrow> string" where
  "stringOf v = (case v of JString s \<Rightarrow> s | _ \<Rightarrow> [])"

definition plainObjectOf :: "'n jsval \<Rightarrow> (string \<times> 'n jsval) list option" where
  "plainObjectOf v = (case v of JObject kvs \<Rightarrow> Some kvs | _ \<Rightarrow> None)"

definition asGovernanceRequest :: "'n jsval \<Rightarrow> 'n GovernanceRequest" where
  "asGovernanceRequest request =
     \<lparr>GovernanceRequest.requestId = stringOf (getProp request ''requestId''),
      GovernanceRequest.resourceId = stringOf (getProp request ''resourceId''),
      GovernanceRequest.action = stringOf (getProp request ''action''),
      GovernanceRequest.principal = stringOf (getProp request ''principal''),
      GovernanceRequest.context' = plainObjectOf (getProp request ''context'')\<rparr>"

definition asAuditSignal :: "'n jsval \<Rightarrow> 'n AuditSignal" where
  "asAuditSignal signal =
     \<lparr>AuditSignal.timestamp = stringOf (getProp signal ''timestamp''),
      AuditSignal.action = stringOf (getProp signal ''action''),
      AuditSignal.principal = stringOf (getProp signal ''principal''),
      AuditSignal.resource = stringOf (getProp signal ''resource''),
      outcome = stringOf (getProp signal ''outcome''),
      metadata = plainObjectOf (getProp signal ''metadata''),
      extension =
        filter (\<lambda>(k, v). k \<notin> set [''timestamp'', ''action'', ''principal'', ''resource'',
                                    ''outcome'', ''metadata''])
          (case signal of JObject kvs \<Rightarrow> kvs | _ \<Rightarrow> [])\<rparr>"

definition handleGovernanceRequest ::
  "('n, 'w) runtime \<Rightarrow> 'n jsval \<Rightarrow> ('n, 's) GovernanceCore \<Rightarrow> 's
     \<Rightarrow> (thrown + 'n GovernanceDecision) \<times> 's" where
  "handleGovernanceRequest rt request core s =
     (case validateGovernanceRequest rt request of
        Some e \<Rightarrow> (Inl e, s)
      | None \<Rightarrow> core_evaluateGovernance core (asGovernanceRequest request) s)"

definition handleRBACResolution ::
  "('n, 'w) runtime \<Rightarrow> 'n jsval \<Rightarrow> ('n, 's) GovernanceCore \<Rightarrow> 's
     \<Rightarrow> (thrown + RBACContext) \<times> 's" where
  "handleRBACResolution rt p core s =
     (case validatePrincipal rt p of
        Some e \<Rightarrow> (Inl e, s)
      | None \<Rightarrow> core_resolveRBAC core (stringOf p) s)"

definition handleFinOpsQuery ::
  "('n, 'w) runtime \<Rightarrow> 'n jsval \<Rightarrow> ('n, 's) GovernanceCore \<Rightarrow> 's
     \<Rightarrow> (thrown + 'n FinOpsSummary) \<times> 's" where
  "handleFinOpsQuery rt rid core s =
     (case validateResourceId rt rid of
        Some e \<Rightarrow> (Inl e, s)
      | None \<Rightarrow> core_getFinOpsSummary core (stringOf rid) s)"

definition handleAuditEmission ::
  "('n, 'w) runtime \<Rightarrow> 'n jsval \<Rightarrow> ('n, 's) GovernanceCore \<Rightarrow> 's
     \<Rightarrow> (thrown + unit) \<times> 's" where
  "handleAuditEmission rt signal core s =
     (case validateAuditSignal rt signal of
        Some e \<Rightarrow> (Inl e, s)
      | None \<Rightarrow>
          (case core_emitAuditSignal core (asAuditSignal signal) s of
             (Inl e, s') \<Rightarrow> (Inl e, s')
           | (Inr u, s') \<Rightarrow> (Inr (), s')))"


section \<open>Collaborators of the test suite (tests/governance.test.ts)\<close>

text \<open>
  A runtime with exact rational arithmetic and a clock that advances by one millisecond at
  each reading, and the mock collaborators of the test suite. They serve to run the
  model on concrete inputs.
\<close>

definition test_runtime :: "(rat, nat) runtime" where
  "test_runtime =
     \<lparr>num_of_rat = (\<lambda>q. q),
      num_times = (\<lambda>a b. a * b),
      num_gt = (\<lambda>a b. b < a),
      num_falsy = (\<lambda>q. q = 0),
      isWhiteSpace = (\<lambda>c. c \<in> set [CHR 0x09, CHR 0x0A, CHR 0x0B, CHR 0x0C, CHR 0x0D, CHR '' '']),
      clock = (\<lambda>w. (1700000000000 + int w, Suc w)),
      toISOString = (\<lambda>t. ''2023-11-14T22:13:20.000Z''),
      Date_parse = (\<lambda>s. Date 1700000000000)\<rparr>"

definition ok :: "'d \<Rightarrow> ('d, 'w) call" where
  "ok d w = (Inr \<lparr>success = True, data = Some d, error = None\<rparr>, w)"

definition ok_void :: "(unit, 'w) call" where
  "ok_void w = (Inr \<lparr>success = True, data = None, error = None\<rparr>, w)"

definition failed :: "string \<Rightarrow> ('d, 'w) call" where
  "failed msg w = (Inr \<lparr>success = False, data = None, error = Some msg\<rparr>, w)"

definition MockPolicyEngineAdapter :: "(rat, nat) IPolicyEngineAdapter" where
  "MockPolicyEngineAdapter =
     \<lparr>evaluatePolicy = (\<lambda>request.
        ok \<lparr>PolicyEngineResult.allowed =
               (PolicyEvaluationRequest.action request = ''read''
                \<or> PolicyEvaluationRequest.action request = ''write''),
            PolicyEngineResult.reasons =
               (if PolicyEvaluationRequest.action request = ''read''
                then [''Read access granted''] else [''Write access granted'']),
            appliedPolicies = [''policy-1'', ''policy-2''],
            conditions = None\<rparr>)\<rparr>"

definition MockCostOpsAdapter :: "rat \<Rightarrow> (rat, nat) ICostOpsAdapter" where
  "MockCostOpsAdapter projected =
     \<lparr>getCostMetrics = (\<lambda>filters.
        ok \<lparr>totalCost = 100, currency = ''USD'',
            CostMetrics.period = (Date 1735689600000, Date 1738281600000),
            breakdown = [(''service-1'', 60), (''service-2'', 40)]\<rparr>),
      getForecast = (\<lambda>params.
        ok \<lparr>projectedCost = projected, confidence = 85 / 100,
            CostForecast.period = (Date 1738368000000, Date 1740700800000)\<rparr>)\<rparr>"

definition MockConfigManagerAdapter :: "nat IConfigManagerAdapter" where
  "MockConfigManagerAdapter =
     \<lparr>getConfig = (\<lambda>k.
        if k = ''rbac.roles.user-123'' then
          ok \<lparr>key = k, value' = Fields (Some [''admin'', ''developer'']) None,
              version = ''v1'', lastUpdated = Date 1700000000000\<rparr>
        else if k = ''rbac.permissions.admin'' then
          ok \<lparr>key = k, value' = Fields None (Some [''read'', ''write'', ''delete'']),
              version = ''v1'', lastUpdated = Date 1700000000000\<rparr>
        else if k = ''rbac.permissions.developer'' then
          ok \<lparr>key = k, value' = Fields None (Some [''read'', ''write'']),
              version = ''v1'', lastUpdated = Date 1700000000000\<rparr>
        else failed ''Config not found'')\<rparr>"

definition mockAdapters :: "(rat, nat) AdapterCollection" where
  "mockAdapters =
     \<lparr>costOps = MockCostOpsAdapter 110,
      dashboard = \<lparr>publishEvent = (\<lambda>ev. ok_void)\<rparr>,
      policyEngine = MockPolicyEngineAdapter,
      analyticsHub = \<lparr>track = (\<lambda>ev. ok_void)\<rparr>,
      configManager = MockConfigManagerAdapter,
      schemaRegistry = \<lparr>validate = (\<lambda>schemaId signal. ok \<lparr>valid = True, errors = []\<rparr>)\<rparr>\<rparr>"

definition testRequest :: "rat GovernanceRequest" where
  "testRequest =
     \<lparr>GovernanceRequest.requestId = ''req-123'',
      GovernanceRequest.resourceId = ''resource-abc'',
      GovernanceRequest.action = ''read'',
      GovernanceRequest.principal = ''user-123'',
      GovernanceRequest.context' = Some [(''source'', JString ''test'')]\<rparr>"

definition start :: "(rat, nat) state" where
  "start = \<lparr>world = 0, trace = []\<rparr>"


text \<open>Variants in which one collaborator reports failure in its result envelope.\<close>

definition policyDown :: "(rat, nat) AdapterCollection" where
  "policyDown =
     mockAdapters\<lparr>policyEngine :=
       \<lparr>evaluatePolicy = (\<lambda>request. failed ''Policy engine unavailable'')\<rparr>\<rparr>"

definition costDown :: "(rat, nat) AdapterCollection" where
  "costDown =
     mockAdapters\<lparr>costOps :=
       \<lparr>getCostMetrics = (\<lambda>filters. failed ''CostOps unavailable''),
        getForecast = getForecast (MockCostOpsAdapter 110)\<rparr>\<rparr>"

definition forecastDown :: "(rat, nat) AdapterCollection" where
  "forecastDown =
     mockAdapters\<lparr>costOps :=
       \<lparr>getCostMetrics = getCostMetrics (MockCostOpsAdapter 110),
        getForecast = (\<lambda>params. failed ''Forecast unavailable'')\<rparr>\<rparr>"

definition analyticsDown :: "(rat, nat) AdapterCollection" where
  "analyticsDown =
     mockAdapters\<lparr>analyticsHub := \<lparr>track = (\<lambda>ev. failed ''Analytics unavailable'')\<rparr>\<rparr>"

definition schemaRejects :: "(rat, nat) AdapterCollection" where
  "schemaRejects =
     mockAdapters\<lparr>schemaRegistry :=
       \<lparr>validate = (\<lambda>schemaId signal.
          ok \<lparr>valid = False,
              errors = [\<lparr>path = ''outcome'', message = ''unknown outcome''\<rparr>,
                        \<lparr>path = ''timestamp'', message = ''not ISO-8601''\<rparr>]\<rparr>)\<rparr>\<rparr>"

definition testSignal :: "rat AuditSignal" where
  "testSignal =
     \<lparr>AuditSignal.timestamp = ''2025-01-01T00:00:00.000Z'',
      AuditSignal.action = ''delete'',
      AuditSignal.principal = ''user-789'',
      AuditSignal.resource = ''resource-sensitive'',
      outcome = ''blocked'',
      metadata = None,
      extension = []\<rparr>"


definition dashboardDown :: "(rat, nat) AdapterCollection" where
  "dashboardDown =
     mockAdapters\<lparr>dashboard := \<lparr>publishEvent = (\<lambda>ev. failed ''Dashboard unavailable'')\<rparr>\<rparr>"


definition schemaDown :: "(rat, nat) AdapterCollection" where
  "schemaDown =
     mockAdapters\<lparr>schemaRegistry :=
       \<lparr>validate = (\<lambda>schemaId signal. failed ''Schema registry unavailable'')\<rparr>\<rparr>"


section \<open>Notions taken from the specification\<close>

text \<open>
  The budget rule as the specification words it (section 4.3): evaluated in order, first
  match wins: \<open>forecast > currentCost * 1.5\<close> gives "exceeded", else
  \<open>forecast > currentCost * 1.2\<close> gives "warning", else "within".
\<close>

definition budgetStatus_rule :: "('n, 'w) runtime \<Rightarrow> 'n \<Rightarrow> 'n \<Rightarrow> string" where
  "budgetStatus_rule rt current fc =
     (if num_gt rt fc (num_times rt current (num_of_rat rt (3 / 2))) then ''exceeded''
      else if num_gt rt fc (num_times rt current (num_of_rat rt (6 / 5))) then ''warning''
      else ''within'')"

text \<open>
  The answers of the configuration collaborator to a sequence of lookups made one after
  the other, each in the world the previous one left.
\<close>

fun configResponses ::
  "'w IConfigManagerAdapter \<Rightarrow> string list \<Rightarrow> 'w \<Rightarrow> (thrown + ConfigValue AdapterResponse) list"
  where
  "configResponses cm [] w = []"
| "configResponses cm (k # ks) w = (case getConfig cm k w of (r, w') \<Rightarrow> r # configResponses cm ks w')"

text \<open>A number as the audit identifier shows it: an optional sign and decimal digits.\<close>

definition isDigit :: "char \<Rightarrow> bool" where
  "isDigit c = (c \<in> set ''0123456789'')"

definition isNumber :: "string \<Rightarrow> bool" where
  "isNumber s =
     (case s of
        [] \<Rightarrow> False
      | c # cs \<Rightarrow> if c = CHR ''-'' then cs \<noteq> [] \<and> list_all isDigit cs else list_all isDigit s)"

text \<open>The required string fields, in the order in which the validators check them.\<close>

definition requestFields :: "string list" where
  "requestFields = [''requestId'', ''resourceId'', ''action'', ''principal'']"

definition signalFields :: "string list" where
  "signalFields = [''timestamp'', ''action'', ''principal'', ''resource'', ''outcome'']"


section \<open>Basic facts about the effects\<close>

lemma invoke_eq:
  "f (world s) = (r, w') \<Longrightarrow> invoke ev f s = (r, \<lparr>world = w', trace = trace s @ [ev]\<rparr>)"
  by (simp add: invoke_def)

lemma Date_now_eq:
  "clock rt (world s) = (t, w')
   \<Longrightarrow> Date_now rt s = (t, \<lparr>world = w', trace = trace s @ [ClockRead t]\<rparr>)"
  by (simp add: Date_now_def)

lemma evaluateGovernance_catch:
  "evaluateGovernance_try rt adapters request s = (Inl e, s') \<Longrightarrow>
   evaluateGovernance rt adapters request s =
     (Inl (Error (''Governance evaluation failed: '' @ catch_message e)), s')"
  by (simp add: evaluateGovernance_def)

lemma evaluateGovernance_return:
  "evaluateGovernance_try rt adapters request s = (Inr d, s') \<Longrightarrow>
   evaluateGovernance rt adapters request s = (Inr d, s')"
  by (simp add: evaluateGovernance_def)

lemma evaluateGovernance_returnD:
  "evaluateGovernance rt adapters request s = (Inr d, s') \<Longrightarrow>
   evaluateGovernance_try rt adapters request s = (Inr d, s')"
  by (auto simp: evaluateGovernance_def split: prod.splits sum.splits)

lemma emitAuditSignal_catch:
  "emitAuditSignal_try rt adapters signal s = (Inl e, s') \<Longrightarrow>
   emitAuditSignal rt adapters signal s =
     (Inl (Error (''Audit signal emission failed: '' @ catch_message e)), s')"
  by (simp add: emitAuditSignal_def)

lemma emitAuditSignal_return:
  "emitAuditSignal_try rt adapters signal s = (Inr u, s') \<Longrightarrow>
   emitAuditSignal rt adapters signal s = (Inr u, s')"
  by (simp add: emitAuditSignal_def)


section \<open>The cost summary\<close>

lemma getFinOpsSummary_success:
  assumes "clock rt (world s0) = (now, w1)"
    and "getCostMetrics (costOps adapters)
           \<lparr>startDate = new_Date (now - 30 * 24 * 60 * 60 * 1000), endDate = Date now,
            CostMetricsFilters.services = Some [rid], groupBy = None\<rparr> w1 = (Inr mr, w2)"
    and "success mr" and "data mr = Some m"
    and "getForecast (costOps adapters)
           \<lparr>horizon = num_of_rat rt 30, ForecastParams.services = Some [rid]\<rparr> w2 = (Inr fr, w3)"
    and "success fr" and "data fr = Some f"
  shows "getFinOpsSummary rt adapters rid s0 =
     (Inr \<lparr>FinOpsSummary.resourceId = rid, currentCost = totalCost m, forecast = projectedCost f,
           budgetStatus = budgetStatus_rule rt (totalCost m) (projectedCost f)\<rparr>,
      \<lparr>world = w3,
       trace = trace s0 @ [ClockRead now,
         CallGetCostMetrics
           \<lparr>startDate = new_Date (now - 30 * 24 * 60 * 60 * 1000), endDate = Date now,
            CostMetricsFilters.services = Some [rid], groupBy = None\<rparr>,
         CallGetForecast \<lparr>horizon = num_of_rat rt 30, ForecastParams.services = Some [rid]\<rparr>]\<rparr>)"
  using assms
  by (simp add: getFinOpsSummary_def getFinOpsSummary_try_def Date_now_def invoke_def
      budgetStatus_rule_def Let_def)

text \<open>
  The examples of the specification, in exact arithmetic: with a current cost of 100, a
  forecast of 110 is within budget, 125 is a warning (125 > 120) and 160 is exceeded
  (160 > 150); the thresholds themselves do not trigger.
\<close>

lemma budgetStatus_rule_examples:
  "budgetStatus_rule test_runtime 100 110 = ''within''"
  "budgetStatus_rule test_runtime 100 125 = ''warning''"
  "budgetStatus_rule test_runtime 100 160 = ''exceeded''"
  "budgetStatus_rule test_runtime 100 120 = ''within''"
  "budgetStatus_rule test_runtime 100 150 = ''warning''"
  by (simp_all add: budgetStatus_rule_def test_runtime_def)

text \<open>
  Claim C6. When the cost-metrics call and the forecast call both succeed with a payload,
  \<open>getFinOpsSummary\<close> returns a summary whose \<open>currentCost\<close> is the total cost of the
  metrics payload, whose \<open>forecast\<close> is the projected cost of the forecast payload, and
  whose \<open>budgetStatus\<close> is the budget rule of the specification applied to these two
  numbers: "exceeded" if \<open>forecast > currentCost * 1.5\<close>, else "warning" if
  \<open>forecast > currentCost * 1.2\<close>, else "within". Nothing else of the collaborator's
  answers enters the status.
\<close>

theorem getFinOpsSummary_budgetStatus:
  assumes "clock rt (world s0) = (now, w1)"
    and "getCostMetrics (costOps adapters)
           \<lparr>startDate = new_Date (now - 30 * 24 * 60 * 60 * 1000), endDate = Date now,
            CostMetricsFilters.services = Some [rid], groupBy = None\<rparr> w1 = (Inr mr, w2)"
    and "success mr" and "data mr = Some m"
    and "getForecast (costOps adapters)
           \<lparr>horizon = num_of_rat rt 30, ForecastParams.services = Some [rid]\<rparr> w2 = (Inr fr, w3)"
    and "success fr" and "data fr = Some f"
  shows "fst (getFinOpsSummary rt adapters rid s0) =
     Inr \<lparr>FinOpsSummary.resourceId = rid,
          currentCost = totalCost m,
          forecast = projectedCost f,
          budgetStatus =
            (if num_gt rt (projectedCost f) (num_times rt (totalCost m) (num_of_rat rt (3 / 2)))
               then ''exceeded''
             else if num_gt rt (projectedCost f) (num_times rt (totalCost m) (num_of_rat rt (6 / 5)))
               then ''warning''
             else ''within'')\<rparr>"
  using getFinOpsSummary_success [OF assms] by (simp add: budgetStatus_rule_def)

text \<open>
  The budget-warning test of the suite: current cost 100 and forecast 125 give "warning".
\<close>

theorem getFinOpsSummary_budgetStatus_witness:
  "fst (getFinOpsSummary test_runtime (mockAdapters\<lparr>costOps := MockCostOpsAdapter 125\<rparr>)
          ''resource-xyz'' start) =
     Inr \<lparr>FinOpsSummary.resourceId = ''resource-xyz'', currentCost = 100, forecast = 125,
          budgetStatus = ''warning''\<rparr>"
  using getFinOpsSummary_budgetStatus [of test_runtime start 1700000000000 1
      "mockAdapters\<lparr>costOps := MockCostOpsAdapter 125\<rparr>" "''resource-xyz''"
      "\<lparr>success = True,
        data = Some \<lparr>totalCost = 100, currency = ''USD'',
                     CostMetrics.period = (Date 1735689600000, Date 1738281600000),
                     breakdown = [(''service-1'', 60), (''service-2'', 40)]\<rparr>,
        error = None\<rparr>" 1 _
      "\<lparr>success = True,
        data = Some \<lparr>projectedCost = 125, confidence = 85 / 100,
                     CostForecast.period = (Date 1738368000000, Date 1740700800000)\<rparr>,
        error = None\<rparr>" 1]
  by (simp add: test_runtime_def start_def mockAdapters_def MockCostOpsAdapter_def ok_def)

section \<open>Facts about the built-ins\<close>

lemma digit_char_isDigit: "d < 10 \<Longrightarrow> isDigit (digit_char d)"
proof -
  assume "d < 10"
  moreover have "list_all (\<lambda>d. isDigit (digit_char d)) [0..<10]"
    by code_simp
  ultimately show ?thesis
    by (simp add: list_all_iff)
qed

lemma string_of_nat_digits: "string_of_nat n \<noteq> [] \<and> list_all isDigit (string_of_nat n)"
proof (induction n rule: string_of_nat.induct)
  case (1 n)
  show ?case
  proof (cases "n < 10")
    case True
    then show ?thesis by (simp add: string_of_nat.simps [of n] digit_char_isDigit)
  next
    case False
    with 1 show ?thesis
      by (simp add: string_of_nat.simps [of n] digit_char_isDigit)
  qed
qed

lemma isDigit_not_minus: "isDigit c \<Longrightarrow> c \<noteq> CHR ''-''"
  by (auto simp: isDigit_def)

lemma Number_toString_isNumber: "isNumber (Number_toString t)"
proof (cases "t < 0")
  case True
  then show ?thesis
    using string_of_nat_digits [of "nat (- t)"] by (simp add: Number_toString_def isNumber_def)
next
  case False
  obtain c cs where eq: "string_of_nat (nat t) = c # cs"
    using string_of_nat_digits [of "nat t"] by (cases "string_of_nat (nat t)") auto
  with string_of_nat_digits [of "nat t"] have "isDigit c" by simp
  then have "c \<noteq> CHR ''-''" by (rule isDigit_not_minus)
  with False eq string_of_nat_digits [of "nat t"] show ?thesis
    by (simp add: Number_toString_def isNumber_def)
qed

lemma set_foldl_Set_add: "set (foldl Set_add acc xs) = set acc \<union> set xs"
  by (induction xs arbitrary: acc) (auto simp: Set_add_def)

lemma distinct_foldl_Set_add: "distinct acc \<Longrightarrow> distinct (foldl Set_add acc xs)"
  by (induction xs arbitrary: acc) (auto simp: Set_add_def)

lemma set_Array_from_Set: "set (Array_from_Set xs) = set xs"
  by (simp add: Array_from_Set_def set_foldl_Set_add)

lemma distinct_Array_from_Set: "distinct (Array_from_Set xs)"
  by (simp add: Array_from_Set_def distinct_foldl_Set_add)

lemma lookupPermissions_responses:
  "fst (lookupPermissions adapters rs s) =
     map (\<lambda>r. case r of Inl e \<Rightarrow> Inl e | Inr c \<Rightarrow> Inr (rolePermissions c))
       (configResponses (configManager adapters) (map (\<lambda>role. ''rbac.permissions.'' @ role) rs) (world s))"
  by (induction rs arbitrary: s) (simp_all add: invoke_def split_beta)

lemma Promise_all_Inr: "Promise_all (map Inr xs) = Inr xs"
  by (induction xs) auto

lemma trim_empty_iff: "trim rt s = [] \<longleftrightarrow> (\<forall>c\<in>set s. isWhiteSpace rt c)"
proof
  assume "trim rt s = []"
  then have *: "\<forall>c\<in>set (dropWhile (isWhiteSpace rt) s). isWhiteSpace rt c"
    by (simp add: trim_def dropWhile_eq_Nil_conv)
  have "dropWhile (isWhiteSpace rt) s = []"
  proof (rule ccontr)
    assume ne: "dropWhile (isWhiteSpace rt) s \<noteq> []"
    then have "\<not> isWhiteSpace rt (hd (dropWhile (isWhiteSpace rt) s))"
      by (rule hd_dropWhile)
    moreover from ne have "hd (dropWhile (isWhiteSpace rt) s) \<in> set (dropWhile (isWhiteSpace rt) s)"
      by simp
    ultimately show False using * by blast
  qed
  then show "\<forall>c\<in>set s. isWhiteSpace rt c" by (simp add: dropWhile_eq_Nil_conv)
next
  assume "\<forall>c\<in>set s. isWhiteSpace rt c"
  then have d: "dropWhile (isWhiteSpace rt) s = []" by (simp add: dropWhile_eq_Nil_conv)
  show "trim rt s = []" unfolding trim_def d by simp
qed

section \<open>Facts about the steps of the operations\<close>

lemma evaluateGovernance_try_policy_failure:
  assumes "evaluatePolicy (policyEngine adapters) (policyRequest_of request) (world s0) = (Inr resp, w1)"
    and "\<not> success resp \<or> data resp = None"
  shows "evaluateGovernance_try rt adapters request s0 =
     (Inl (Error (or_default (AdapterResponse.error resp) ''Policy evaluation failed'')),
      \<lparr>world = w1, trace = trace s0 @ [CallEvaluatePolicy (policyRequest_of request)]\<rparr>)"
  using assms by (auto simp: evaluateGovernance_try_def invoke_def Let_def)

lemma evaluateGovernance_try_returnD:
  assumes "evaluateGovernance_try rt adapters request s0 = (Inr d, s')"
  shows "\<exists>resp payload w1 c s2.
      evaluatePolicy (policyEngine adapters) (policyRequest_of request) (world s0) = (Inr resp, w1)
    \<and> success resp \<and> data resp = Some payload
    \<and> getFinOpsSummary rt adapters (GovernanceRequest.resourceId request)
         \<lparr>world = w1, trace = trace s0 @ [CallEvaluatePolicy (policyRequest_of request)]\<rparr> = (c, s2)
    \<and> evaluateGovernance_report rt adapters request (policyResults_of payload)
         (case c of Inl e \<Rightarrow> None | Inr f \<Rightarrow> Some f)
         (case c of Inl e \<Rightarrow> s2\<lparr>trace := trace s2 @ [ConsoleWarn e]\<rparr> | Inr f \<Rightarrow> s2) = (Inr d, s')"
  using assms
  by (auto simp: evaluateGovernance_try_def invoke_def Let_def
      split: prod.splits sum.splits option.splits if_splits)

lemma emitAuditSignal_try_validation_failure:
  assumes "validate (schemaRegistry adapters) ''audit.signal.v1'' signal (world s0) = (Inr resp, w1)"
    and "\<not> success resp \<or> \<not> (case data resp of None \<Rightarrow> False | Some v \<Rightarrow> valid v)"
  shows "emitAuditSignal_try rt adapters signal s0 =
     (Inl (Error (''Audit signal validation failed: ''
            @ join '', '' (map message (case data resp of None \<Rightarrow> [] | Some v \<Rightarrow> errors v)))),
      \<lparr>world = w1, trace = trace s0 @ [CallValidate ''audit.signal.v1'' signal]\<rparr>)"
  using assms by (auto simp: emitAuditSignal_try_def invoke_def Let_def)

lemma emitAuditSignal_returnD:
  assumes "emitAuditSignal rt adapters signal s = (Inr u, s')"
  shows "\<exists>ev. trace s' = trace s @ [CallValidate ''audit.signal.v1'' signal, CallPublishEvent ev]
     \<and> details ev = signal
     \<and> severity ev = (if outcome signal = ''denied'' then warning else info)"
  using assms
  by (auto simp: emitAuditSignal_def emitAuditSignal_try_def invoke_def Let_def
      split: prod.splits sum.splits if_splits)

lemma evaluateGovernance_report_success:
  assumes "clock rt (world s) = (t1, w1)"
    and "track (analyticsHub adapters) (analyticsEvent_of request verdict t1) w1 = (Inr r, w2)"
    and "clock rt w2 = (t2, w3)"
    and "clock rt w3 = (t3, w4)"
    and "emitAuditSignal rt adapters (auditSignal_of rt request verdict t3)
           \<lparr>world = w4,
            trace = trace s @ [ClockRead t1, CallTrack (analyticsEvent_of request verdict t1),
                               ClockRead t2, ClockRead t3]\<rparr> = (Inr u, s')"
  shows "evaluateGovernance_report rt adapters request verdict cost s =
     (Inr \<lparr>GovernanceDecision.requestId = GovernanceRequest.requestId request,
           GovernanceDecision.allowed = PolicyEvaluationResult.allowed verdict,
           policyResults = verdict, costImpact = cost,
           auditId = ''audit-'' @ GovernanceRequest.requestId request @ ''-'' @ Number_toString t2\<rparr>,
      s')"
  using assms
  by (simp add: evaluateGovernance_report_def invoke_def Date_now_def Let_def)

lemma evaluateGovernance_report_returnD:
  assumes "evaluateGovernance_report rt adapters request verdict cost s = (Inr d, s')"
  shows "\<exists>t1 t2 t3 ev.
      d = \<lparr>GovernanceDecision.requestId = GovernanceRequest.requestId request,
           GovernanceDecision.allowed = PolicyEvaluationResult.allowed verdict,
           policyResults = verdict, costImpact = cost,
           auditId = ''audit-'' @ GovernanceRequest.requestId request @ ''-'' @ Number_toString t2\<rparr>
    \<and> trace s' = trace s @ [ClockRead t1, CallTrack (analyticsEvent_of request verdict t1),
                             ClockRead t2, ClockRead t3,
                             CallValidate ''audit.signal.v1'' (auditSignal_of rt request verdict t3),
                             CallPublishEvent ev]
    \<and> severity ev = (if PolicyEvaluationResult.allowed verdict then info else warning)"
proof -
  from assms obtain t1 s1 r s2 t2 s3 t3 s4 u where
    c1: "Date_now rt s = (t1, s1)"
    and tr: "invoke (CallTrack (analyticsEvent_of request verdict t1))
               (track (analyticsHub adapters) (analyticsEvent_of request verdict t1)) s1 = (Inr r, s2)"
    and c2: "Date_now rt s2 = (t2, s3)"
    and c3: "Date_now rt s3 = (t3, s4)"
    and em: "emitAuditSignal rt adapters (auditSignal_of rt request verdict t3) s4 = (Inr u, s')"
    and d: "d = \<lparr>GovernanceDecision.requestId = GovernanceRequest.requestId request,
           GovernanceDecision.allowed = PolicyEvaluationResult.allowed verdict,
           policyResults = verdict, costImpact = cost,
           auditId = ''audit-'' @ GovernanceRequest.requestId request @ ''-'' @ Number_toString t2\<rparr>"
    by (auto simp: evaluateGovernance_report_def Let_def split: prod.splits sum.splits)
  from c1 have t_s1: "trace s1 = trace s @ [ClockRead t1]"
    by (auto simp: Date_now_def split: prod.splits)
  from tr have t_s2: "trace s2 = trace s1 @ [CallTrack (analyticsEvent_of request verdict t1)]"
    by (auto simp: invoke_def split: prod.splits)
  from c2 have t_s3: "trace s3 = trace s2 @ [ClockRead t2]"
    by (auto simp: Date_now_def split: prod.splits)
  from c3 have t_s4: "trace s4 = trace s3 @ [ClockRead t3]"
    by (auto simp: Date_now_def split: prod.splits)
  from emitAuditSignal_returnD [OF em] obtain ev where
    ev: "trace s' = trace s4 @ [CallValidate ''audit.signal.v1'' (auditSignal_of rt request verdict t3),
                                CallPublishEvent ev]"
    and sev: "severity ev = (if outcome (auditSignal_of rt request verdict t3) = ''denied''
                             then warning else info)"
    by blast
  from sev have "severity ev = (if PolicyEvaluationResult.allowed verdict then info else warning)"
    by (simp add: auditSignal_of_def)
  with d ev t_s1 t_s2 t_s3 t_s4 show ?thesis by auto
qed

section \<open>Evaluating a governance request\<close>

lemmas mock_defs = mockAdapters_def MockPolicyEngineAdapter_def MockCostOpsAdapter_def
  MockConfigManagerAdapter_def ok_def ok_void_def failed_def test_runtime_def testRequest_def
  start_def

lemmas run_defs = evaluateGovernance_def evaluateGovernance_try_def evaluateGovernance_report_def
  getFinOpsSummary_def getFinOpsSummary_try_def emitAuditSignal_def emitAuditSignal_try_def
  invoke_def Date_now_def policyRequest_of_def policyResults_of_def analyticsEvent_of_def
  auditSignal_of_def new_Date_def or_default_def Let_def

lemma digit_char_numerals:
  "digit_char 0 = CHR ''0''" "digit_char 1 = CHR ''1''" "digit_char 2 = CHR ''2''"
  "digit_char 3 = CHR ''3''" "digit_char 4 = CHR ''4''" "digit_char 5 = CHR ''5''"
  "digit_char 6 = CHR ''6''" "digit_char 7 = CHR ''7''" "digit_char 8 = CHR ''8''"
  "digit_char 9 = CHR ''9''" "digit_char (Suc 0) = CHR ''1''"
  by code_simp+

lemma Number_toString_example: "Number_toString 1700000000002 = ''1700000000002''"
  by (simp add: Number_toString_def string_of_nat.simps digit_char_numerals)

text \<open>
  Claim C1. Whenever \<open>evaluateGovernance\<close> returns a decision, its \<open>allowed\<close> field equals
  \<open>policyResults.allowed\<close>, and this is the verdict in the payload that the policy
  collaborator returned for the query built from the request: the orchestrator does not
  override the policy verdict. The last thing the orchestrator did is to publish the audit
  event to the dashboard, with severity "info" for an allowed request and "warning" for a
  denied one.
\<close>

theorem evaluateGovernance_never_overrides_verdict:
  assumes "evaluateGovernance rt adapters request s0 = (Inr d, s')"
  shows "GovernanceDecision.allowed d = PolicyEvaluationResult.allowed (policyResults d)
     \<and> (\<exists>resp payload w1.
           evaluatePolicy (policyEngine adapters) (policyRequest_of request) (world s0) = (Inr resp, w1)
         \<and> success resp \<and> data resp = Some payload
         \<and> PolicyEvaluationResult.allowed (policyResults d) = PolicyEngineResult.allowed payload)
     \<and> (\<exists>before ev. trace s' = before @ [CallPublishEvent ev]
           \<and> severity ev = (if GovernanceDecision.allowed d then info else warning))"
proof -
  from evaluateGovernance_try_returnD [OF evaluateGovernance_returnD [OF assms]]
  obtain resp payload w1 c s2 where
    p: "evaluatePolicy (policyEngine adapters) (policyRequest_of request) (world s0) = (Inr resp, w1)"
      "success resp" "data resp = Some payload"
    and r: "evaluateGovernance_report rt adapters request (policyResults_of payload)
         (case c of Inl e \<Rightarrow> None | Inr f \<Rightarrow> Some f)
         (case c of Inl e \<Rightarrow> s2\<lparr>trace := trace s2 @ [ConsoleWarn e]\<rparr> | Inr f \<Rightarrow> s2) = (Inr d, s')"
    by blast
  let ?s = "case c of Inl e \<Rightarrow> s2\<lparr>trace := trace s2 @ [ConsoleWarn e]\<rparr> | Inr f \<Rightarrow> s2"
  from evaluateGovernance_report_returnD [OF r] obtain t1 t2 t3 ev where
    a: "GovernanceDecision.allowed d = PolicyEvaluationResult.allowed (policyResults_of payload)"
    and v: "policyResults d = policyResults_of payload"
    and tr: "trace s' = trace ?s @ [ClockRead t1,
               CallTrack (analyticsEvent_of request (policyResults_of payload) t1),
               ClockRead t2, ClockRead t3,
               CallValidate ''audit.signal.v1'' (auditSignal_of rt request (policyResults_of payload) t3),
               CallPublishEvent ev]"
    and sev: "severity ev =
               (if PolicyEvaluationResult.allowed (policyResults_of payload) then info else warning)"
    by auto
  from tr have "trace s' =
      (trace ?s @ [ClockRead t1,
               CallTrack (analyticsEvent_of request (policyResults_of payload) t1),
               ClockRead t2, ClockRead t3,
               CallValidate ''audit.signal.v1'' (auditSignal_of rt request (policyResults_of payload) t3)])
        @ [CallPublishEvent ev]"
    by simp
  with sev a have "\<exists>before ev. trace s' = before @ [CallPublishEvent ev]
           \<and> severity ev = (if GovernanceDecision.allowed d then info else warning)"
    by metis
  moreover from p a v have "GovernanceDecision.allowed d = PolicyEvaluationResult.allowed (policyResults d)
     \<and> (\<exists>resp payload w1.
           evaluatePolicy (policyEngine adapters) (policyRequest_of request) (world s0) = (Inr resp, w1)
         \<and> success resp \<and> data resp = Some payload
         \<and> PolicyEvaluationResult.allowed (policyResults d) = PolicyEngineResult.allowed payload)"
    by (auto simp: policyResults_of_def)
  ultimately show ?thesis by blast
qed

text \<open>A denied request of the test suite: the decision carries the collaborator's denial.\<close>

theorem evaluateGovernance_never_overrides_verdict_witness:
  "fst (evaluateGovernance test_runtime mockAdapters
          (testRequest\<lparr>GovernanceRequest.action := ''delete''\<rparr>) start) =
     Inr \<lparr>GovernanceDecision.requestId = ''req-123'',
          GovernanceDecision.allowed = False,
          policyResults = \<lparr>PolicyEvaluationResult.allowed = False,
                           policies = [''policy-1'', ''policy-2''],
                           PolicyEvaluationResult.reasons = [''Write access granted'']\<rparr>,
          costImpact = Some \<lparr>FinOpsSummary.resourceId = ''resource-abc'', currentCost = 100,
                              forecast = 110, budgetStatus = ''within''\<rparr>,
          auditId = ''audit-req-123-1700000000002''\<rparr>
   \<and> (\<exists>resp payload w1.
         evaluatePolicy (policyEngine mockAdapters)
           (policyRequest_of (testRequest\<lparr>GovernanceRequest.action := ''delete''\<rparr>)) (world start)
           = (Inr resp, w1)
       \<and> success resp \<and> data resp = Some payload \<and> \<not> PolicyEngineResult.allowed payload)"
proof -
  let ?run = "evaluateGovernance test_runtime mockAdapters
                (testRequest\<lparr>GovernanceRequest.action := ''delete''\<rparr>) start"
  let ?d = "\<lparr>GovernanceDecision.requestId = ''req-123'',
          GovernanceDecision.allowed = False,
          policyResults = \<lparr>PolicyEvaluationResult.allowed = False,
                           policies = [''policy-1'', ''policy-2''],
                           PolicyEvaluationResult.reasons = [''Write access granted'']\<rparr>,
          costImpact = Some \<lparr>FinOpsSummary.resourceId = ''resource-abc'', currentCost = 100,
                              forecast = 110, budgetStatus = ''within''\<rparr>,
          auditId = ''audit-req-123-1700000000002''\<rparr>"
  have f: "fst ?run = Inr ?d"
    by (simp add: mock_defs run_defs Number_toString_example)
  then have h: "?run = (Inr ?d, snd ?run)"
    by (simp add: prod_eq_iff)
  from evaluateGovernance_never_overrides_verdict [OF h] f show ?thesis
    by simp
qed

text \<open>
  Claim C3. If the policy collaborator reports failure (\<open>success\<close> false) or returns no
  payload, \<open>evaluateGovernance\<close> returns no decision: it raises an error carrying the
  collaborator's error message, or "Policy evaluation failed" when there is none (an empty
  message counts as none), and the caller receives it wrapped as
  "Governance evaluation failed: <cause>". No other collaborator has been called.
\<close>

theorem evaluateGovernance_policy_failure:
  assumes "evaluatePolicy (policyEngine adapters) (policyRequest_of request) (world s0) = (Inr resp, w1)"
    and "\<not> success resp \<or> data resp = None"
  shows "evaluateGovernance rt adapters request s0 =
     (Inl (Error (''Governance evaluation failed: ''
            @ (case AdapterResponse.error resp of
                 None \<Rightarrow> ''Policy evaluation failed''
               | Some m \<Rightarrow> if m = [] then ''Policy evaluation failed'' else m))),
      \<lparr>world = w1, trace = trace s0 @ [CallEvaluatePolicy (policyRequest_of request)]\<rparr>)"
  using evaluateGovernance_catch [OF evaluateGovernance_try_policy_failure [OF assms]]
  by (simp add: or_default_def)

theorem evaluateGovernance_policy_failure_witness:
  "evaluatePolicy (policyEngine policyDown) (policyRequest_of testRequest) (world start) =
     (Inr \<lparr>success = False, data = None, error = Some ''Policy engine unavailable''\<rparr>, 0)
   \<and> evaluateGovernance test_runtime policyDown testRequest start =
     (Inl (Error ''Governance evaluation failed: Policy engine unavailable''),
      \<lparr>world = 0, trace = [CallEvaluatePolicy (policyRequest_of testRequest)]\<rparr>)"
proof -
  have h: "evaluatePolicy (policyEngine policyDown) (policyRequest_of testRequest) (world start) =
     (Inr \<lparr>success = False, data = None, error = Some ''Policy engine unavailable''\<rparr>, 0)"
    by (simp add: policyDown_def failed_def start_def)
  from evaluateGovernance_policy_failure [OF h, of test_runtime] h show ?thesis
    by (simp add: start_def)
qed

text \<open>
  Claim C9. Whenever \<open>evaluateGovernance\<close> returns a decision, its \<open>auditId\<close> is "audit-"
  followed by the request's \<open>requestId\<close>, "-", and the decimal rendering of a clock
  reading in milliseconds: the reading taken just before the one that stamps the audit
  signal, which is then validated and published. The rendering is a number (an optional
  sign and digits), so the identifier matches audit-<requestId>-<number>.
\<close>

theorem evaluateGovernance_auditId:
  assumes "evaluateGovernance rt adapters request s0 = (Inr d, s')"
  shows "\<exists>t t' signal ev before.
      auditId d = ''audit-'' @ GovernanceRequest.requestId request @ ''-'' @ Number_toString t
    \<and> isNumber (Number_toString t)
    \<and> trace s' = before @ [ClockRead t, ClockRead t',
                            CallValidate ''audit.signal.v1'' signal, CallPublishEvent ev]"
proof -
  from evaluateGovernance_try_returnD [OF evaluateGovernance_returnD [OF assms]]
  obtain resp payload w1 c s2 where
    "evaluatePolicy (policyEngine adapters) (policyRequest_of request) (world s0) = (Inr resp, w1)"
    and "data resp = Some payload"
    and r: "evaluateGovernance_report rt adapters request (policyResults_of payload)
         (case c of Inl e \<Rightarrow> None | Inr f \<Rightarrow> Some f)
         (case c of Inl e \<Rightarrow> s2\<lparr>trace := trace s2 @ [ConsoleWarn e]\<rparr> | Inr f \<Rightarrow> s2) = (Inr d, s')"
    by blast
  let ?s = "case c of Inl e \<Rightarrow> s2\<lparr>trace := trace s2 @ [ConsoleWarn e]\<rparr> | Inr f \<Rightarrow> s2"
  from evaluateGovernance_report_returnD [OF r] obtain t1 t2 t3 ev where
    a: "auditId d = ''audit-'' @ GovernanceRequest.requestId request @ ''-'' @ Number_toString t2"
    and tr: "trace s' = trace ?s @ [ClockRead t1,
               CallTrack (analyticsEvent_of request (policyResults_of payload) t1),
               ClockRead t2, ClockRead t3,
               CallValidate ''audit.signal.v1'' (auditSignal_of rt request (policyResults_of payload) t3),
               CallPublishEvent ev]"
    by auto
  from tr have "trace s' =
      (trace ?s @ [ClockRead t1, CallTrack (analyticsEvent_of request (policyResults_of payload) t1)])
        @ [ClockRead t2, ClockRead t3,
           CallValidate ''audit.signal.v1'' (auditSignal_of rt request (policyResults_of payload) t3),
           CallPublishEvent ev]"
    by simp
  with a Number_toString_isNumber [of t2] show ?thesis
    by blast
qed

text \<open>The first test of the suite, with the clock of the test runtime.\<close>

theorem evaluateGovernance_auditId_witness:
  "auditId (projr (fst (evaluateGovernance test_runtime mockAdapters testRequest start)))
     = ''audit-req-123-1700000000002''
   \<and> (\<exists>t. ''audit-req-123-1700000000002'' = ''audit-'' @ ''req-123'' @ ''-'' @ Number_toString t
          \<and> isNumber (Number_toString t))"
proof -
  let ?run = "evaluateGovernance test_runtime mockAdapters testRequest start"
  let ?d = "\<lparr>GovernanceDecision.requestId = ''req-123'',
          GovernanceDecision.allowed = True,
          policyResults = \<lparr>PolicyEvaluationResult.allowed = True,
                           policies = [''policy-1'', ''policy-2''],
                           PolicyEvaluationResult.reasons = [''Read access granted'']\<rparr>,
          costImpact = Some \<lparr>FinOpsSummary.resourceId = ''resource-abc'', currentCost = 100,
                              forecast = 110, budgetStatus = ''within''\<rparr>,
          auditId = ''audit-req-123-1700000000002''\<rparr>"
  have f: "fst ?run = Inr ?d"
    by (simp add: mock_defs run_defs Number_toString_example)
  then have h: "?run = (Inr ?d, snd ?run)"
    by (simp add: prod_eq_iff)
  from evaluateGovernance_auditId [OF h] f show ?thesis
    by (auto simp: testRequest_def)
qed

text \<open>
  Claim C2. Let the policy collaborator answer with a payload. If \<open>getFinOpsSummary\<close> then
  fails, for whatever reason, while the analytics call returns and the emission of the
  audit signal succeeds, then \<open>evaluateGovernance\<close> returns a decision, and its
  \<open>costImpact\<close> is absent: the failure of the cost summary is logged and not propagated.
\<close>

theorem evaluateGovernance_cost_failure_swallowed:
  assumes "evaluatePolicy (policyEngine adapters) (policyRequest_of request) (world s0) = (Inr resp, w1)"
    and "success resp" and "data resp = Some payload"
    and "getFinOpsSummary rt adapters (GovernanceRequest.resourceId request)
           \<lparr>world = w1, trace = trace s0 @ [CallEvaluatePolicy (policyRequest_of request)]\<rparr>
         = (Inl e, s2)"
    and "clock rt (world s2) = (t1, w3)"
    and "track (analyticsHub adapters) (analyticsEvent_of request (policyResults_of payload) t1) w3
         = (Inr r, w4)"
    and "clock rt w4 = (t2, w5)"
    and "clock rt w5 = (t3, w6)"
    and "emitAuditSignal rt adapters (auditSignal_of rt request (policyResults_of payload) t3)
           \<lparr>world = w6,
            trace = trace s2 @ [ConsoleWarn e, ClockRead t1,
                      CallTrack (analyticsEvent_of request (policyResults_of payload) t1),
                      ClockRead t2, ClockRead t3]\<rparr>
         = (Inr u, s')"
  shows "evaluateGovernance rt adapters request s0 =
     (Inr \<lparr>GovernanceDecision.requestId = GovernanceRequest.requestId request,
           GovernanceDecision.allowed = PolicyEngineResult.allowed payload,
           policyResults = policyResults_of payload,
           costImpact = None,
           auditId = ''audit-'' @ GovernanceRequest.requestId request @ ''-'' @ Number_toString t2\<rparr>,
      s')"
proof -
  let ?s = "s2\<lparr>trace := trace s2 @ [ConsoleWarn e]\<rparr>"
  have "evaluateGovernance_report rt adapters request (policyResults_of payload) None ?s =
     (Inr \<lparr>GovernanceDecision.requestId = GovernanceRequest.requestId request,
           GovernanceDecision.allowed = PolicyEvaluationResult.allowed (policyResults_of payload),
           policyResults = policyResults_of payload,
           costImpact = None,
           auditId = ''audit-'' @ GovernanceRequest.requestId request @ ''-'' @ Number_toString t2\<rparr>,
      s')"
    using assms(5-9) by (intro evaluateGovernance_report_success) simp_all
  then have "evaluateGovernance_try rt adapters request s0 =
     (Inr \<lparr>GovernanceDecision.requestId = GovernanceRequest.requestId request,
           GovernanceDecision.allowed = PolicyEngineResult.allowed payload,
           policyResults = policyResults_of payload,
           costImpact = None,
           auditId = ''audit-'' @ GovernanceRequest.requestId request @ ''-'' @ Number_toString t2\<rparr>,
      s')"
    using assms(1-4)
    by (simp add: evaluateGovernance_try_def invoke_def Let_def policyResults_of_def)
  then show ?thesis by (rule evaluateGovernance_return)
qed

text \<open>
  Claim C2, on the test collaborators with a cost collaborator that reports failure.
\<close>

theorem evaluateGovernance_cost_failure_swallowed_witness:
  "fst (getFinOpsSummary test_runtime costDown ''resource-abc''
          \<lparr>world = 0, trace = [CallEvaluatePolicy (policyRequest_of testRequest)]\<rparr>)
     = Inl (Error ''FinOps summary failed: CostOps unavailable'')
   \<and> fst (evaluateGovernance test_runtime costDown testRequest start) =
     Inr \<lparr>GovernanceDecision.requestId = ''req-123'',
          GovernanceDecision.allowed = True,
          policyResults = \<lparr>PolicyEvaluationResult.allowed = True,
                           policies = [''policy-1'', ''policy-2''],
                           PolicyEvaluationResult.reasons = [''Read access granted'']\<rparr>,
          costImpact = None,
          auditId = ''audit-req-123-1700000000002''\<rparr>"
proof -
  let ?P = "\<lparr>PolicyEngineResult.allowed = True,
             PolicyEngineResult.reasons = [''Read access granted''],
             appliedPolicies = [''policy-1'', ''policy-2''],
             conditions = None\<rparr> :: rat PolicyEngineResult"
  let ?fin = "getFinOpsSummary test_runtime costDown (GovernanceRequest.resourceId testRequest)
                \<lparr>world = 0, trace = trace start @ [CallEvaluatePolicy (policyRequest_of testRequest)]\<rparr>"
  let ?e = "Error ''FinOps summary failed: CostOps unavailable''"
  let ?em = "emitAuditSignal test_runtime costDown
               (auditSignal_of test_runtime testRequest (policyResults_of ?P) 1700000000003)
               \<lparr>world = 4,
                trace = trace (snd ?fin) @ [ConsoleWarn ?e, ClockRead 1700000000001,
                      CallTrack (analyticsEvent_of testRequest (policyResults_of ?P) 1700000000001),
                      ClockRead 1700000000002, ClockRead 1700000000003]\<rparr>"
  have h1: "evaluatePolicy (policyEngine costDown) (policyRequest_of testRequest) (world start)
      = (Inr \<lparr>success = True, data = Some ?P, error = None\<rparr>, 0)"
    by (simp add: costDown_def mock_defs policyRequest_of_def)
  have f: "fst ?fin = Inl ?e"
    by (simp add: costDown_def mock_defs run_defs)
  then have h4: "?fin = (Inl ?e, snd ?fin)"
    by (simp add: prod_eq_iff)
  have h5: "clock test_runtime (world (snd ?fin)) = (1700000000001, 2)"
    by (simp add: costDown_def mock_defs run_defs)
  have h6: "track (analyticsHub costDown)
              (analyticsEvent_of testRequest (policyResults_of ?P) 1700000000001) 2
            = (Inr \<lparr>success = True, data = None, error = None\<rparr>, 2)"
    by (simp add: costDown_def mock_defs)
  have h7: "clock test_runtime 2 = (1700000000002, 3)"
    by (simp add: test_runtime_def)
  have h8: "clock test_runtime 3 = (1700000000003, 4)"
    by (simp add: test_runtime_def)
  have "fst ?em = Inr ()"
    by (simp add: costDown_def mock_defs run_defs)
  then have h9: "?em = (Inr (), snd ?em)"
    by (simp add: prod_eq_iff)
  from evaluateGovernance_cost_failure_swallowed [OF h1 _ _ h4 h5 h6 h7 h8 h9] f
  show ?thesis
    by (simp add: start_def testRequest_def policyResults_of_def Number_toString_example)
qed


section \<open>Emitting an audit signal\<close>

text \<open>
  Claim C4. If the schema collaborator's \<open>validate\<close> call reports failure, or reports
  success without \<open>valid\<close> being true, \<open>emitAuditSignal\<close> fails with the message
  "Audit signal emission failed: Audit signal validation failed: " followed by the
  validation error messages joined by ", ". The only collaborator call of the invocation is
  the validation: \<open>publishEvent\<close> of the dashboard collaborator is not called.
\<close>

theorem emitAuditSignal_validation_failure:
  assumes "validate (schemaRegistry adapters) ''audit.signal.v1'' signal (world s0) = (Inr resp, w1)"
    and "\<not> success resp \<or> \<not> (case data resp of None \<Rightarrow> False | Some v \<Rightarrow> valid v)"
  shows "emitAuditSignal rt adapters signal s0 =
     (Inl (Error (''Audit signal emission failed: '' @ ''Audit signal validation failed: ''
            @ join '', '' (map message (case data resp of None \<Rightarrow> [] | Some v \<Rightarrow> errors v)))),
      \<lparr>world = w1, trace = trace s0 @ [CallValidate ''audit.signal.v1'' signal]\<rparr>)
   \<and> (\<forall>ev. CallPublishEvent ev \<notin>
          set (drop (length (trace s0)) (trace (snd (emitAuditSignal rt adapters signal s0)))))"
  using emitAuditSignal_catch [OF emitAuditSignal_try_validation_failure [OF assms], of rt]
  by simp

theorem emitAuditSignal_validation_failure_witness:
  "validate (schemaRegistry schemaRejects) ''audit.signal.v1'' testSignal (world start) =
     (Inr \<lparr>success = True,
           data = Some \<lparr>valid = False,
                        errors = [\<lparr>path = ''outcome'', message = ''unknown outcome''\<rparr>,
                                  \<lparr>path = ''timestamp'', message = ''not ISO-8601''\<rparr>]\<rparr>,
           error = None\<rparr>, 0)
   \<and> emitAuditSignal test_runtime schemaRejects testSignal start =
     (Inl (Error (''Audit signal emission failed: Audit signal validation failed: ''
                  @ ''unknown outcome, not ISO-8601'')),
      \<lparr>world = 0, trace = [CallValidate ''audit.signal.v1'' testSignal]\<rparr>)"
proof -
  have h: "validate (schemaRegistry schemaRejects) ''audit.signal.v1'' testSignal (world start) =
     (Inr \<lparr>success = True,
           data = Some \<lparr>valid = False,
                        errors = [\<lparr>path = ''outcome'', message = ''unknown outcome''\<rparr>,
                                  \<lparr>path = ''timestamp'', message = ''not ISO-8601''\<rparr>]\<rparr>,
           error = None\<rparr>, 0)"
    by (simp add: schemaRejects_def ok_def start_def)
  from emitAuditSignal_validation_failure [OF h, of test_runtime] h show ?thesis
    by (simp add: start_def)
qed

section \<open>Resolving roles and permissions\<close>

text \<open>
  Claim C8. If the lookup of the principal's roles reports failure or returns no value,
  \<open>resolveRBAC\<close> raises no error: it returns a context with that principal, no roles and
  no permissions, after that single lookup.
\<close>

theorem resolveRBAC_unknown_principal:
  assumes "getConfig (configManager adapters) (''rbac.roles.'' @ p) (world s0) = (Inr resp, w1)"
    and "\<not> success resp \<or> data resp = None"
  shows "resolveRBAC adapters p s0 =
     (Inr \<lparr>RBACContext.principal = p, roles = [], permissions = [], scope = None\<rparr>,
      \<lparr>world = w1, trace = trace s0 @ [CallGetConfig (''rbac.roles.'' @ p)]\<rparr>)"
  using assms
  by (auto simp: resolveRBAC_def resolveRBAC_try_def invoke_def)

theorem resolveRBAC_unknown_principal_witness:
  "getConfig (configManager mockAdapters) (''rbac.roles.'' @ ''unknown-user'') (world start) =
     (Inr \<lparr>success = False, data = None, error = Some ''Config not found''\<rparr>, 0)
   \<and> resolveRBAC mockAdapters ''unknown-user'' start =
     (Inr \<lparr>RBACContext.principal = ''unknown-user'', roles = [], permissions = [], scope = None\<rparr>,
      \<lparr>world = 0, trace = [CallGetConfig ''rbac.roles.unknown-user'']\<rparr>)"
proof -
  have h: "getConfig (configManager mockAdapters) (''rbac.roles.'' @ ''unknown-user'') (world start) =
     (Inr \<lparr>success = False, data = None, error = Some ''Config not found''\<rparr>, 0)"
    by (simp add: mockAdapters_def MockConfigManagerAdapter_def failed_def start_def)
  from resolveRBAC_unknown_principal [OF h] h show ?thesis
    by (simp add: start_def)
qed

lemma set_rolePermissions:
  "set (rolePermissions a) =
     {perm. \<exists>cv r ps. success a \<and> data a = Some cv \<and> value' cv = Fields r (Some ps) \<and> perm \<in> set ps}"
proof (cases "if success a then data a else None")
  case None
  then show ?thesis
    by (auto simp: rolePermissions_def split: if_splits)
next
  case (Some c)
  then have sd: "success a" "data a = Some c"
    by (auto split: if_splits)
  show ?thesis
  proof (cases "value' c")
    case Nullish
    with sd show ?thesis by (simp add: rolePermissions_def permissionsOf_def)
  next
    case (Fields r q)
    with sd show ?thesis
      by (cases q) (simp_all add: rolePermissions_def permissionsOf_def)
  qed
qed

lemma resolveRBAC_success:
  assumes "getConfig (configManager adapters) (''rbac.roles.'' @ p) (world s0) = (Inr resp, w1)"
    and "success resp" and "data resp = Some cv"
    and "configResponses (configManager adapters)
           (map (\<lambda>role. ''rbac.permissions.'' @ role) (rolesOf (value' cv))) w1 = map Inr answers"
  shows "fst (resolveRBAC adapters p s0) =
     Inr \<lparr>RBACContext.principal = p, roles = rolesOf (value' cv),
          permissions = Array_from_Set (flat (map rolePermissions answers)), scope = None\<rparr>"
proof -
  let ?s1 = "\<lparr>world = w1, trace = trace s0 @ [CallGetConfig (''rbac.roles.'' @ p)]\<rparr>"
  have "fst (lookupPermissions adapters (rolesOf (value' cv)) ?s1) =
          map Inr (map rolePermissions answers)"
    using assms(4) by (simp add: lookupPermissions_responses)
  then have "Promise_all (fst (lookupPermissions adapters (rolesOf (value' cv)) ?s1)) =
          Inr (map rolePermissions answers)"
    by (simp only: Promise_all_Inr)
  with assms(1-3) show ?thesis
    by (simp add: resolveRBAC_def resolveRBAC_try_def invoke_def Let_def split_beta)
qed

text \<open>
  Claim C7. Let the roles lookup answer with a payload, and let every per-role lookup
  answer with an envelope. Then \<open>resolveRBAC\<close> returns a context whose roles are those of
  the payload and whose permissions contain no duplicates and are exactly the permissions
  listed by the per-role answers that report success with a payload. An answer that
  reports failure or has no payload contributes nothing and does not fail the operation.
  With no roles there are no permissions.
\<close>

theorem resolveRBAC_permissions:
  assumes "getConfig (configManager adapters) (''rbac.roles.'' @ p) (world s0) = (Inr resp, w1)"
    and "success resp" and "data resp = Some cv"
    and "configResponses (configManager adapters)
           (map (\<lambda>role. ''rbac.permissions.'' @ role) (rolesOf (value' cv))) w1 = map Inr answers"
  shows "\<exists>ctx. fst (resolveRBAC adapters p s0) = Inr ctx
      \<and> RBACContext.principal ctx = p
      \<and> roles ctx = rolesOf (value' cv)
      \<and> distinct (permissions ctx)
      \<and> set (permissions ctx) =
          {perm. \<exists>a c r ps. a \<in> set answers \<and> success a \<and> data a = Some c
                   \<and> value' c = Fields r (Some ps) \<and> perm \<in> set ps}
      \<and> (roles ctx = [] \<longrightarrow> permissions ctx = [])"
proof -
  let ?ctx = "\<lparr>RBACContext.principal = p, roles = rolesOf (value' cv),
          permissions = Array_from_Set (flat (map rolePermissions answers)), scope = None\<rparr>"
  have r: "fst (resolveRBAC adapters p s0) = Inr ?ctx"
    using assms by (rule resolveRBAC_success)
  have "set (permissions ?ctx) = (\<Union>a\<in>set answers. set (rolePermissions a))"
    by (simp add: set_Array_from_Set flat_def)
  also have "\<dots> = {perm. \<exists>a c r ps. a \<in> set answers \<and> success a \<and> data a = Some c
                   \<and> value' c = Fields r (Some ps) \<and> perm \<in> set ps}"
    by (auto simp: set_rolePermissions)
  finally have s: "set (permissions ?ctx) =
      {perm. \<exists>a c r ps. a \<in> set answers \<and> success a \<and> data a = Some c
                   \<and> value' c = Fields r (Some ps) \<and> perm \<in> set ps}" .
  have e: "roles ?ctx = [] \<longrightarrow> permissions ?ctx = []"
  proof
    assume "roles ?ctx = []"
    then have "rolesOf (value' cv) = []" by simp
    with assms(4) have "answers = []" by simp
    then show "permissions ?ctx = []" by (simp add: Array_from_Set_def flat_def)
  qed
  have d: "distinct (permissions ?ctx)" by (simp add: distinct_Array_from_Set)
  from r s e d show ?thesis
    by (intro exI [of _ ?ctx]) simp
qed

theorem resolveRBAC_permissions_witness:
  "fst (resolveRBAC mockAdapters ''user-123'' start) =
     Inr \<lparr>RBACContext.principal = ''user-123'', roles = [''admin'', ''developer''],
          permissions = [''read'', ''write'', ''delete''], scope = None\<rparr>
   \<and> (\<exists>ctx. fst (resolveRBAC mockAdapters ''user-123'' start) = Inr ctx
          \<and> distinct (permissions ctx) \<and> roles ctx = [''admin'', ''developer''])"
proof -
  let ?cv = "\<lparr>key = ''rbac.roles.user-123'', value' = Fields (Some [''admin'', ''developer'']) None,
              version = ''v1'', lastUpdated = Date 1700000000000\<rparr>"
  let ?admin = "\<lparr>success = True,
                 data = Some \<lparr>key = ''rbac.permissions.admin'',
                              value' = Fields None (Some [''read'', ''write'', ''delete'']),
                              version = ''v1'', lastUpdated = Date 1700000000000\<rparr>,
                 error = None\<rparr>"
  let ?developer = "\<lparr>success = True,
                 data = Some \<lparr>key = ''rbac.permissions.developer'',
                              value' = Fields None (Some [''read'', ''write'']),
                              version = ''v1'', lastUpdated = Date 1700000000000\<rparr>,
                 error = None\<rparr>"
  have h1: "getConfig (configManager mockAdapters) (''rbac.roles.'' @ ''user-123'') (world start)
      = (Inr \<lparr>success = True, data = Some ?cv, error = None\<rparr>, 0)"
    by (simp add: mock_defs)
  have h4: "configResponses (configManager mockAdapters)
           (map (\<lambda>role. ''rbac.permissions.'' @ role) (rolesOf (value' ?cv))) 0
        = map Inr [?admin, ?developer]"
    by (simp add: mock_defs rolesOf_def)
  have "fst (resolveRBAC mockAdapters ''user-123'' start) =
     Inr \<lparr>RBACContext.principal = ''user-123'', roles = [''admin'', ''developer''],
          permissions = [''read'', ''write'', ''delete''], scope = None\<rparr>"
    by (simp add: mock_defs resolveRBAC_def resolveRBAC_try_def invoke_def rolesOf_def
        rolePermissions_def permissionsOf_def Array_from_Set_def Set_add_def flat_def Let_def)
  with resolveRBAC_permissions [OF h1 _ _ h4] show ?thesis
    by (auto simp: rolesOf_def)
qed

section \<open>Boundary validation\<close>

text \<open>What a value that the validators accept looks like.\<close>

lemma typeof_string: "typeof v = ''string'' \<longleftrightarrow> (\<exists>s. v = JString s)"
  by (cases v) simp_all

lemma nonEmptyStringD:
  "\<not> notNonEmptyString rt v \<Longrightarrow> \<exists>s. v = JString s \<and> s \<noteq> [] \<and> stringOf v = s"
  by (auto simp: notNonEmptyString_def typeof_string stringOf_def)

lemma plainObjectIfProvidedD:
  "\<not> notPlainObjectIfProvided v \<Longrightarrow>
     (v = JUndefined \<and> plainObjectOf v = None) \<or> (\<exists>kvs. v = JObject kvs \<and> plainObjectOf v = Some kvs)"
  by (cases v) (simp_all add: notPlainObjectIfProvided_def plainObjectOf_def)

lemma validateGovernanceRequest_accepts:
  assumes "validateGovernanceRequest rt request = None"
  shows "(\<forall>f\<in>set requestFields. \<exists>s. getProp request f = JString s \<and> s \<noteq> [])
     \<and> (getProp request ''context'' = JUndefined \<or> (\<exists>kvs. getProp request ''context'' = JObject kvs))"
proof -
  from assms have "\<not> notNonEmptyString rt (getProp request ''requestId'')"
    and "\<not> notNonEmptyString rt (getProp request ''resourceId'')"
    and "\<not> notNonEmptyString rt (getProp request ''action'')"
    and "\<not> notNonEmptyString rt (getProp request ''principal'')"
    and "\<not> notPlainObjectIfProvided (getProp request ''context'')"
    by (simp_all add: validateGovernanceRequest_def split: if_splits)
  then show ?thesis
    using nonEmptyStringD [of rt] plainObjectIfProvidedD
    by (simp add: requestFields_def del: getProp.simps) blast
qed

lemma validateAuditSignal_accepts:
  assumes "validateAuditSignal rt signal = None"
  shows "(\<forall>f\<in>set signalFields. \<exists>s. getProp signal f = JString s \<and> s \<noteq> [])
     \<and> (getProp signal ''metadata'' = JUndefined \<or> (\<exists>kvs. getProp signal ''metadata'' = JObject kvs))"
proof -
  from assms have "\<not> notNonEmptyString rt (getProp signal ''timestamp'')"
    and "\<not> notNonEmptyString rt (getProp signal ''action'')"
    and "\<not> notNonEmptyString rt (getProp signal ''principal'')"
    and "\<not> notNonEmptyString rt (getProp signal ''resource'')"
    and "\<not> notNonEmptyString rt (getProp signal ''outcome'')"
    and "\<not> notPlainObjectIfProvided (getProp signal ''metadata'')"
    by (simp_all add: validateAuditSignal_def split: if_splits)
  then show ?thesis
    using nonEmptyStringD [of rt] plainObjectIfProvidedD
    by (simp add: signalFields_def del: getProp.simps) blast
qed

lemma validatePrincipal_accepts:
  "validatePrincipal rt p = None \<Longrightarrow> \<exists>s. p = JString s \<and> stringOf p = s"
  by (auto simp: validatePrincipal_def typeof_string stringOf_def split: if_splits)

lemma validateResourceId_accepts:
  "validateResourceId rt rid = None \<Longrightarrow> \<exists>s. rid = JString s \<and> stringOf rid = s"
  by (auto simp: validateResourceId_def typeof_string stringOf_def split: if_splits)

text \<open>White-space-only fields.\<close>

lemma blank_notNonEmptyString:
  "\<forall>c\<in>set w. isWhiteSpace rt c \<Longrightarrow> notNonEmptyString rt (JString w)"
  by (simp add: notNonEmptyString_def trimsToEmpty_def trim_empty_iff)

lemma empty_notNonEmptyString: "notNonEmptyString rt (JString [])"
  by (simp add: notNonEmptyString_def)

lemma blank_trimsToEmpty:
  "\<forall>c\<in>set w. isWhiteSpace rt c \<Longrightarrow> trimsToEmpty rt (JString w)"
  by (simp add: trimsToEmpty_def trim_empty_iff)

lemma getProp_Cons:
  "getProp (JObject ((k, v) # kvs)) g = (if g = k then v else getProp (JObject kvs) g)"
  by simp

lemma handleGovernanceRequest_blank_field:
  assumes "\<forall>c\<in>set w. isWhiteSpace rt c"
    and "f \<in> set requestFields"
    and "getProp (JObject kvs) f = JString w"
  shows "\<exists>msg. handleGovernanceRequest rt (JObject kvs) core s = (Inl (Error msg), s)
      \<and> handleGovernanceRequest rt (JObject ((f, JString []) # kvs)) core s = (Inl (Error msg), s)"
proof -
  have b: "notNonEmptyString rt (getProp (JObject kvs) f)"
    using assms(1,3) by (simp add: blank_notNonEmptyString)
  note e = empty_notNonEmptyString [of rt]
  from assms(2) have "f = ''requestId'' \<or> f = ''resourceId'' \<or> f = ''action'' \<or> f = ''principal''"
    by (simp add: requestFields_def)
  then show ?thesis
  proof (elim disjE)
    assume "f = ''requestId''"
    with b e show ?thesis
      by (simp add: handleGovernanceRequest_def validateGovernanceRequest_def getProp_Cons
          del: getProp.simps)
  next
    assume "f = ''resourceId''"
    with b e show ?thesis
      by (simp add: handleGovernanceRequest_def validateGovernanceRequest_def getProp_Cons
          del: getProp.simps)
  next
    assume "f = ''action''"
    with b e show ?thesis
      by (simp add: handleGovernanceRequest_def validateGovernanceRequest_def getProp_Cons
          del: getProp.simps)
  next
    assume "f = ''principal''"
    with b e show ?thesis
      by (simp add: handleGovernanceRequest_def validateGovernanceRequest_def getProp_Cons
          del: getProp.simps)
  qed
qed

lemma handleGovernanceRequest_names_field:
  assumes "\<forall>c\<in>set w. isWhiteSpace rt c"
    and "f \<in> set requestFields"
    and "getProp (JObject kvs) f = JString w"
    and "\<forall>g\<in>set (takeWhile (\<lambda>g. g \<noteq> f) requestFields).
           \<not> notNonEmptyString rt (getProp (JObject kvs) g)"
  shows "handleGovernanceRequest rt (JObject kvs) core s =
     (Inl (Error (''Invalid request: '' @ f @ '' must be a non-empty string'')), s)"
proof -
  have b: "notNonEmptyString rt (getProp (JObject kvs) f)"
    using assms(1,3) by (simp add: blank_notNonEmptyString)
  from assms(2) have "f = ''requestId'' \<or> f = ''resourceId'' \<or> f = ''action'' \<or> f = ''principal''"
    by (simp add: requestFields_def)
  then show ?thesis
  proof (elim disjE)
    assume "f = ''requestId''"
    with b assms(4) show ?thesis
      by (simp add: handleGovernanceRequest_def validateGovernanceRequest_def requestFields_def
          del: getProp.simps)
  next
    assume "f = ''resourceId''"
    with b assms(4) show ?thesis
      by (simp add: handleGovernanceRequest_def validateGovernanceRequest_def requestFields_def
          del: getProp.simps)
  next
    assume "f = ''action''"
    with b assms(4) show ?thesis
      by (simp add: handleGovernanceRequest_def validateGovernanceRequest_def requestFields_def
          del: getProp.simps)
  next
    assume "f = ''principal''"
    with b assms(4) show ?thesis
      by (simp add: handleGovernanceRequest_def validateGovernanceRequest_def requestFields_def
          del: getProp.simps)
  qed
qed

lemma handleAuditEmission_blank_field:
  assumes "\<forall>c\<in>set w. isWhiteSpace rt c"
    and "f \<in> set signalFields"
    and "getProp (JObject kvs) f = JString w"
  shows "\<exists>msg. handleAuditEmission rt (JObject kvs) core s = (Inl (Error msg), s)
      \<and> handleAuditEmission rt (JObject ((f, JString []) # kvs)) core s = (Inl (Error msg), s)"
proof -
  have b: "notNonEmptyString rt (getProp (JObject kvs) f)"
    using assms(1,3) by (simp add: blank_notNonEmptyString)
  note e = empty_notNonEmptyString [of rt]
  from assms(2) have "f = ''timestamp'' \<or> f = ''action'' \<or> f = ''principal'' \<or> f = ''resource'' \<or> f = ''outcome''"
    by (simp add: signalFields_def)
  then show ?thesis
  proof (elim disjE)
    assume "f = ''timestamp''"
    with b e show ?thesis
      by (simp add: handleAuditEmission_def validateAuditSignal_def getProp_Cons
          del: getProp.simps)
  next
    assume "f = ''action''"
    with b e show ?thesis
      by (simp add: handleAuditEmission_def validateAuditSignal_def getProp_Cons
          del: getProp.simps)
  next
    assume "f = ''principal''"
    with b e show ?thesis
      by (simp add: handleAuditEmission_def validateAuditSignal_def getProp_Cons
          del: getProp.simps)
  next
    assume "f = ''resource''"
    with b e show ?thesis
      by (simp add: handleAuditEmission_def validateAuditSignal_def getProp_Cons
          del: getProp.simps)
  next
    assume "f = ''outcome''"
    with b e show ?thesis
      by (simp add: handleAuditEmission_def validateAuditSignal_def getProp_Cons
          del: getProp.simps)
  qed
qed

lemma handleAuditEmission_names_field:
  assumes "\<forall>c\<in>set w. isWhiteSpace rt c"
    and "f \<in> set signalFields"
    and "getProp (JObject kvs) f = JString w"
    and "\<forall>g\<in>set (takeWhile (\<lambda>g. g \<noteq> f) signalFields).
           \<not> notNonEmptyString rt (getProp (JObject kvs) g)"
  shows "handleAuditEmission rt (JObject kvs) core s =
     (Inl (Error (''Invalid audit signal: '' @ f @ '' must be a non-empty string'')), s)"
proof -
  have b: "notNonEmptyString rt (getProp (JObject kvs) f)"
    using assms(1,3) by (simp add: blank_notNonEmptyString)
  from assms(2) have "f = ''timestamp'' \<or> f = ''action'' \<or> f = ''principal'' \<or> f = ''resource'' \<or> f = ''outcome''"
    by (simp add: signalFields_def)
  then show ?thesis
  proof (elim disjE)
    assume "f = ''timestamp''"
    with b assms(4) show ?thesis
      by (simp add: handleAuditEmission_def validateAuditSignal_def signalFields_def
          del: getProp.simps)
  next
    assume "f = ''action''"
    with b assms(4) show ?thesis
      by (simp add: handleAuditEmission_def validateAuditSignal_def signalFields_def
          del: getProp.simps)
  next
    assume "f = ''principal''"
    with b assms(4) show ?thesis
      by (simp add: handleAuditEmission_def validateAuditSignal_def signalFields_def
          del: getProp.simps)
  next
    assume "f = ''resource''"
    with b assms(4) show ?thesis
      by (simp add: handleAuditEmission_def validateAuditSignal_def signalFields_def
          del: getProp.simps)
  next
    assume "f = ''outcome''"
    with b assms(4) show ?thesis
      by (simp add: handleAuditEmission_def validateAuditSignal_def signalFields_def
          del: getProp.simps)
  qed
qed

lemma handleRBACResolution_blank:
  "\<forall>c\<in>set w. isWhiteSpace rt c \<Longrightarrow>
   handleRBACResolution rt (JString w) core s =
     (Inl (Error ''Invalid principal: must be a non-empty string''), s)"
  by (simp add: handleRBACResolution_def validatePrincipal_def blank_trimsToEmpty)

lemma handleFinOpsQuery_blank:
  "\<forall>c\<in>set w. isWhiteSpace rt c \<Longrightarrow>
   handleFinOpsQuery rt (JString w) core s =
     (Inl (Error ''Invalid resourceId: must be a non-empty string''), s)"
  by (simp add: handleFinOpsQuery_def validateResourceId_def blank_trimsToEmpty)

text \<open>
  Claim C10. Let \<open>w\<close> be a string made of white space only (characters that \<open>trim\<close>
  removes; the empty string is the special case). A request or audit signal in which a
  required string field holds \<open>w\<close> is rejected by its handler with a validation error, the
  same error as when the field holds the empty string, and the state is unchanged whatever
  the core is: the core operation is not invoked. When the fields checked before it are
  non-empty strings, the error names the field. \<open>handleRBACResolution\<close> and
  \<open>handleFinOpsQuery\<close>, whose input is the field itself, reject \<open>w\<close> with the error they
  give for the empty string.
\<close>

theorem handlers_reject_whitespace_only:
  assumes "\<forall>c\<in>set w. isWhiteSpace rt c"
  shows "(\<forall>f\<in>set requestFields. getProp (JObject kvs) f = JString w \<longrightarrow>
            (\<exists>msg. handleGovernanceRequest rt (JObject kvs) core s = (Inl (Error msg), s)
                \<and> handleGovernanceRequest rt (JObject ((f, JString []) # kvs)) core s
                    = (Inl (Error msg), s))
          \<and> ((\<forall>g\<in>set (takeWhile (\<lambda>g. g \<noteq> f) requestFields).
                  \<not> notNonEmptyString rt (getProp (JObject kvs) g)) \<longrightarrow>
               handleGovernanceRequest rt (JObject kvs) core s =
                 (Inl (Error (''Invalid request: '' @ f @ '' must be a non-empty string'')), s)))
     \<and> (\<forall>f\<in>set signalFields. getProp (JObject kvs) f = JString w \<longrightarrow>
            (\<exists>msg. handleAuditEmission rt (JObject kvs) core s = (Inl (Error msg), s)
                \<and> handleAuditEmission rt (JObject ((f, JString []) # kvs)) core s
                    = (Inl (Error msg), s))
          \<and> ((\<forall>g\<in>set (takeWhile (\<lambda>g. g \<noteq> f) signalFields).
                  \<not> notNonEmptyString rt (getProp (JObject kvs) g)) \<longrightarrow>
               handleAuditEmission rt (JObject kvs) core s =
                 (Inl (Error (''Invalid audit signal: '' @ f @ '' must be a non-empty string'')), s)))
     \<and> handleRBACResolution rt (JString w) core s =
          (Inl (Error ''Invalid principal: must be a non-empty string''), s)
     \<and> handleRBACResolution rt (JString []) core s = handleRBACResolution rt (JString w) core s
     \<and> handleFinOpsQuery rt (JString w) core s =
          (Inl (Error ''Invalid resourceId: must be a non-empty string''), s)
     \<and> handleFinOpsQuery rt (JString []) core s = handleFinOpsQuery rt (JString w) core s"
proof (intro conjI ballI impI)
  fix f
  assume "f \<in> set requestFields" and "getProp (JObject kvs) f = JString w"
  with assms show "\<exists>msg. handleGovernanceRequest rt (JObject kvs) core s = (Inl (Error msg), s)
      \<and> handleGovernanceRequest rt (JObject ((f, JString []) # kvs)) core s = (Inl (Error msg), s)"
    by (rule handleGovernanceRequest_blank_field)
next
  fix f
  assume "f \<in> set requestFields" and "getProp (JObject kvs) f = JString w"
    and "\<forall>g\<in>set (takeWhile (\<lambda>g. g \<noteq> f) requestFields).
           \<not> notNonEmptyString rt (getProp (JObject kvs) g)"
  with assms show "handleGovernanceRequest rt (JObject kvs) core s =
       (Inl (Error (''Invalid request: '' @ f @ '' must be a non-empty string'')), s)"
    by (rule handleGovernanceRequest_names_field)
next
  fix f
  assume "f \<in> set signalFields" and "getProp (JObject kvs) f = JString w"
  with assms show "\<exists>msg. handleAuditEmission rt (JObject kvs) core s = (Inl (Error msg), s)
      \<and> handleAuditEmission rt (JObject ((f, JString []) # kvs)) core s = (Inl (Error msg), s)"
    by (rule handleAuditEmission_blank_field)
next
  fix f
  assume "f \<in> set signalFields" and "getProp (JObject kvs) f = JString w"
    and "\<forall>g\<in>set (takeWhile (\<lambda>g. g \<noteq> f) signalFields).
           \<not> notNonEmptyString rt (getProp (JObject kvs) g)"
  with assms show "handleAuditEmission rt (JObject kvs) core s =
       (Inl (Error (''Invalid audit signal: '' @ f @ '' must be a non-empty string'')), s)"
    by (rule handleAuditEmission_names_field)
next
  show "handleRBACResolution rt (JString w) core s =
          (Inl (Error ''Invalid principal: must be a non-empty string''), s)"
    using assms by (rule handleRBACResolution_blank)
next
  show "handleRBACResolution rt (JString []) core s = handleRBACResolution rt (JString w) core s"
    using assms by (simp add: handleRBACResolution_blank)
next
  show "handleFinOpsQuery rt (JString w) core s =
          (Inl (Error ''Invalid resourceId: must be a non-empty string''), s)"
    using assms by (rule handleFinOpsQuery_blank)
next
  show "handleFinOpsQuery rt (JString []) core s = handleFinOpsQuery rt (JString w) core s"
    using assms by (simp add: handleFinOpsQuery_blank)
qed

text \<open>
  A request whose \<open>action\<close> is two spaces and a tab, handled with the orchestrator over
  the test collaborators: the error names \<open>action\<close>, and no collaborator is called.
\<close>

theorem handlers_reject_whitespace_only_witness:
  "list_all (isWhiteSpace test_runtime) [CHR '' '', CHR '' '', CHR 0x09]
   \<and> handleGovernanceRequest test_runtime
        (JObject [(''requestId'', JString ''req-1''), (''resourceId'', JString ''res''),
                  (''action'', JString [CHR '' '', CHR '' '', CHR 0x09]),
                  (''principal'', JString ''user'')])
        (createGovernanceCore test_runtime mockAdapters) start
       = (Inl (Error ''Invalid request: action must be a non-empty string''), start)
   \<and> handleRBACResolution test_runtime (JString [CHR '' '', CHR '' '', CHR 0x09])
        (createGovernanceCore test_runtime mockAdapters) start
       = (Inl (Error ''Invalid principal: must be a non-empty string''), start)"
proof -
  let ?w = "[CHR '' '', CHR '' '', CHR 0x09]"
  let ?kvs = "[(''requestId'', JString ''req-1''), (''resourceId'', JString ''res''),
               (''action'', JString ?w), (''principal'', JString ''user'')] :: (string \<times> rat jsval) list"
  have ws: "\<forall>c\<in>set ?w. isWhiteSpace test_runtime c"
    by (simp add: test_runtime_def)
  have valid: "\<not> notNonEmptyString test_runtime (JString ''req-1'')"
              "\<not> notNonEmptyString test_runtime (JString ''res'')"
    by (simp_all add: notNonEmptyString_def trimsToEmpty_def trim_def test_runtime_def)
  from handlers_reject_whitespace_only [OF ws, of ?kvs "createGovernanceCore test_runtime mockAdapters" start]
  have "(\<forall>f\<in>set requestFields. getProp (JObject ?kvs) f = JString ?w \<longrightarrow>
          ((\<forall>g\<in>set (takeWhile (\<lambda>g. g \<noteq> f) requestFields).
                  \<not> notNonEmptyString test_runtime (getProp (JObject ?kvs) g)) \<longrightarrow>
               handleGovernanceRequest test_runtime (JObject ?kvs)
                 (createGovernanceCore test_runtime mockAdapters) start =
                 (Inl (Error (''Invalid request: '' @ f @ '' must be a non-empty string'')), start)))"
    and r: "handleRBACResolution test_runtime (JString ?w)
              (createGovernanceCore test_runtime mockAdapters) start =
          (Inl (Error ''Invalid principal: must be a non-empty string''), start)"
    by blast+
  then have "handleGovernanceRequest test_runtime (JObject ?kvs)
                 (createGovernanceCore test_runtime mockAdapters) start =
                 (Inl (Error ''Invalid request: action must be a non-empty string''), start)"
    using valid by (simp add: requestFields_def)
  moreover have "list_all (isWhiteSpace test_runtime) ?w"
    by (simp add: test_runtime_def)
  ultimately show ?thesis using r by blast
qed

section \<open>Which collaborator failures are fatal\<close>

lemma getFinOpsSummary_metrics_failure:
  assumes "clock rt (world s0) = (now, w1)"
    and "getCostMetrics (costOps adapters)
           \<lparr>startDate = new_Date (now - 30 * 24 * 60 * 60 * 1000), endDate = Date now,
            CostMetricsFilters.services = Some [rid], groupBy = None\<rparr> w1 = (Inr mr, w2)"
    and "\<not> success mr \<or> data mr = None"
  shows "\<exists>cause s'. getFinOpsSummary rt adapters rid s0 =
           (Inl (Error (''FinOps summary failed: '' @ cause)), s')"
  using assms
  by (auto simp: getFinOpsSummary_def getFinOpsSummary_try_def Date_now_def invoke_def Let_def
      split: prod.splits sum.splits option.splits)

lemma getFinOpsSummary_forecast_failure:
  assumes "clock rt (world s0) = (now, w1)"
    and "getCostMetrics (costOps adapters)
           \<lparr>startDate = new_Date (now - 30 * 24 * 60 * 60 * 1000), endDate = Date now,
            CostMetricsFilters.services = Some [rid], groupBy = None\<rparr> w1 = (mc, w2)"
    and "getForecast (costOps adapters)
           \<lparr>horizon = num_of_rat rt 30, ForecastParams.services = Some [rid]\<rparr> w2 = (Inr fr, w3)"
    and "\<not> success fr \<or> data fr = None"
  shows "\<exists>cause s'. getFinOpsSummary rt adapters rid s0 =
           (Inl (Error (''FinOps summary failed: '' @ cause)), s')"
  using assms
  by (auto simp: getFinOpsSummary_def getFinOpsSummary_try_def Date_now_def invoke_def Let_def
      split: prod.splits sum.splits option.splits)

text \<open>
  \<open>emitAuditSignal\<close> awaits \<open>publishEvent\<close> and returns; it does not read the envelope.
\<close>

lemma emitAuditSignal_publish_envelope_ignored:
  assumes "validate (schemaRegistry adapters) ''audit.signal.v1'' signal (world s0) = (Inr vr, w1)"
    and "success vr" and "data vr = Some v" and "valid v"
    and "publishEvent (dashboard adapters)
           \<lparr>eventType = ''audit.signal'',
            severity = (if outcome signal = ''denied'' then warning else info),
            GovernanceEvent.timestamp = Date_parse rt (AuditSignal.timestamp signal),
            details = signal, correlationId = None\<rparr> w1 = (Inr r, w2)"
  shows "\<exists>s'. emitAuditSignal rt adapters signal s0 = (Inr (), s')"
  using assms
  by (simp add: emitAuditSignal_def emitAuditSignal_try_def invoke_def Let_def)

lemma evaluateGovernance_success:
  assumes "evaluatePolicy (policyEngine adapters) (policyRequest_of request) (world s0) = (Inr resp, w1)"
    and "success resp" and "data resp = Some payload"
    and "getFinOpsSummary rt adapters (GovernanceRequest.resourceId request)
           \<lparr>world = w1, trace = trace s0 @ [CallEvaluatePolicy (policyRequest_of request)]\<rparr>
         = (c, s2)"
    and "clock rt (world s2) = (t1, w3)"
    and "track (analyticsHub adapters) (analyticsEvent_of request (policyResults_of payload) t1) w3
         = (Inr r, w4)"
    and "clock rt w4 = (t2, w5)"
    and "clock rt w5 = (t3, w6)"
    and "emitAuditSignal rt adapters (auditSignal_of rt request (policyResults_of payload) t3)
           \<lparr>world = w6,
            trace = trace s2 @ (case c of Inl e \<Rightarrow> [ConsoleWarn e] | Inr f \<Rightarrow> [])
                      @ [ClockRead t1,
                         CallTrack (analyticsEvent_of request (policyResults_of payload) t1),
                         ClockRead t2, ClockRead t3]\<rparr>
         = (Inr u, s')"
  shows "evaluateGovernance rt adapters request s0 =
     (Inr \<lparr>GovernanceDecision.requestId = GovernanceRequest.requestId request,
           GovernanceDecision.allowed = PolicyEngineResult.allowed payload,
           policyResults = policyResults_of payload,
           costImpact = (case c of Inl e \<Rightarrow> None | Inr f \<Rightarrow> Some f),
           auditId = ''audit-'' @ GovernanceRequest.requestId request @ ''-'' @ Number_toString t2\<rparr>,
      s')"
proof -
  let ?s = "case c of Inl e \<Rightarrow> s2\<lparr>trace := trace s2 @ [ConsoleWarn e]\<rparr> | Inr f \<Rightarrow> s2"
  let ?cost = "case c of Inl e \<Rightarrow> None | Inr f \<Rightarrow> Some f"
  have w: "world ?s = world s2"
    and t: "trace ?s = trace s2 @ (case c of Inl e \<Rightarrow> [ConsoleWarn e] | Inr f \<Rightarrow> [])"
    by (simp_all split: sum.splits)
  have "evaluateGovernance_report rt adapters request (policyResults_of payload) ?cost ?s =
     (Inr \<lparr>GovernanceDecision.requestId = GovernanceRequest.requestId request,
           GovernanceDecision.allowed = PolicyEvaluationResult.allowed (policyResults_of payload),
           policyResults = policyResults_of payload,
           costImpact = ?cost,
           auditId = ''audit-'' @ GovernanceRequest.requestId request @ ''-'' @ Number_toString t2\<rparr>,
      s')"
    using assms(5-9) by (intro evaluateGovernance_report_success) (simp_all only: w t append_assoc)
  then have "evaluateGovernance_try rt adapters request s0 =
     (Inr \<lparr>GovernanceDecision.requestId = GovernanceRequest.requestId request,
           GovernanceDecision.allowed = PolicyEngineResult.allowed payload,
           policyResults = policyResults_of payload,
           costImpact = ?cost,
           auditId = ''audit-'' @ GovernanceRequest.requestId request @ ''-'' @ Number_toString t2\<rparr>,
      s')"
    using assms(1-4)
    by (simp add: evaluateGovernance_try_def invoke_def Let_def policyResults_of_def
        split: sum.splits)
  then show ?thesis by (rule evaluateGovernance_return)
qed

text \<open>
  Claim C5 as stated does not hold. With the test collaborators: the analytics collaborator
  answers \<open>track\<close> with \<open>success\<close> false, the call is made, and \<open>evaluateGovernance\<close>
  returns a decision; the dashboard collaborator answers \<open>publishEvent\<close> with \<open>success\<close>
  false and \<open>emitAuditSignal\<close> returns normally; the configuration collaborator answers the
  roles lookup with \<open>success\<close> false and \<open>resolveRBAC\<close> returns a context.
\<close>

theorem uninspected_envelope_failure_counterexample:
  "fst (track (analyticsHub analyticsDown)
         (analyticsEvent_of testRequest
            \<lparr>PolicyEvaluationResult.allowed = True, policies = [''policy-1'', ''policy-2''],
             PolicyEvaluationResult.reasons = [''Read access granted'']\<rparr> 1700000000001) 2)
     = Inr \<lparr>success = False, data = None, error = Some ''Analytics unavailable''\<rparr>
   \<and> CallTrack (analyticsEvent_of testRequest
            \<lparr>PolicyEvaluationResult.allowed = True, policies = [''policy-1'', ''policy-2''],
             PolicyEvaluationResult.reasons = [''Read access granted'']\<rparr> 1700000000001)
       \<in> set (trace (snd (evaluateGovernance test_runtime analyticsDown testRequest start)))
   \<and> fst (evaluateGovernance test_runtime analyticsDown testRequest start) =
     Inr \<lparr>GovernanceDecision.requestId = ''req-123'',
          GovernanceDecision.allowed = True,
          policyResults = \<lparr>PolicyEvaluationResult.allowed = True,
                           policies = [''policy-1'', ''policy-2''],
                           PolicyEvaluationResult.reasons = [''Read access granted'']\<rparr>,
          costImpact = Some \<lparr>FinOpsSummary.resourceId = ''resource-abc'', currentCost = 100,
                              forecast = 110, budgetStatus = ''within''\<rparr>,
          auditId = ''audit-req-123-1700000000002''\<rparr>
   \<and> fst (publishEvent (dashboard dashboardDown)
         \<lparr>eventType = ''audit.signal'', severity = info,
          GovernanceEvent.timestamp = Date 1700000000000, details = testSignal,
          correlationId = None\<rparr> 0)
     = Inr \<lparr>success = False, data = None, error = Some ''Dashboard unavailable''\<rparr>
   \<and> emitAuditSignal test_runtime dashboardDown testSignal start =
     (Inr (),
      \<lparr>world = 0,
       trace = [CallValidate ''audit.signal.v1'' testSignal,
                CallPublishEvent
                  \<lparr>eventType = ''audit.signal'', severity = info,
                   GovernanceEvent.timestamp = Date 1700000000000, details = testSignal,
                   correlationId = None\<rparr>]\<rparr>)
   \<and> fst (getConfig (configManager mockAdapters) ''rbac.roles.unknown-user'' 0)
     = Inr \<lparr>success = False, data = None, error = Some ''Config not found''\<rparr>
   \<and> fst (resolveRBAC mockAdapters ''unknown-user'' start) =
     Inr \<lparr>RBACContext.principal = ''unknown-user'', roles = [], permissions = [], scope = None\<rparr>"
  by (simp add: analyticsDown_def dashboardDown_def testSignal_def mock_defs run_defs
      resolveRBAC_def resolveRBAC_try_def Number_toString_example)

text \<open>A failed emission of the audit signal fails the evaluation.\<close>

lemma evaluateGovernance_report_emission_failure:
  assumes "clock rt (world s) = (t1, w1)"
    and "track (analyticsHub adapters) (analyticsEvent_of request verdict t1) w1 = (Inr r, w2)"
    and "clock rt w2 = (t2, w3)"
    and "clock rt w3 = (t3, w4)"
    and "emitAuditSignal rt adapters (auditSignal_of rt request verdict t3)
           \<lparr>world = w4,
            trace = trace s @ [ClockRead t1, CallTrack (analyticsEvent_of request verdict t1),
                               ClockRead t2, ClockRead t3]\<rparr> = (Inl e, s')"
  shows "evaluateGovernance_report rt adapters request verdict cost s = (Inl e, s')"
  using assms
  by (simp add: evaluateGovernance_report_def invoke_def Date_now_def Let_def)

lemma evaluateGovernance_emission_failure:
  assumes "evaluatePolicy (policyEngine adapters) (policyRequest_of request) (world s0) = (Inr resp, w1)"
    and "success resp" and "data resp = Some payload"
    and "getFinOpsSummary rt adapters (GovernanceRequest.resourceId request)
           \<lparr>world = w1, trace = trace s0 @ [CallEvaluatePolicy (policyRequest_of request)]\<rparr>
         = (c, s2)"
    and "clock rt (world s2) = (t1, w3)"
    and "track (analyticsHub adapters) (analyticsEvent_of request (policyResults_of payload) t1) w3
         = (Inr r, w4)"
    and "clock rt w4 = (t2, w5)"
    and "clock rt w5 = (t3, w6)"
    and "emitAuditSignal rt adapters (auditSignal_of rt request (policyResults_of payload) t3)
           \<lparr>world = w6,
            trace = trace s2 @ (case c of Inl e \<Rightarrow> [ConsoleWarn e] | Inr f \<Rightarrow> [])
                      @ [ClockRead t1,
                         CallTrack (analyticsEvent_of request (policyResults_of payload) t1),
                         ClockRead t2, ClockRead t3]\<rparr>
         = (Inl e, s')"
  shows "evaluateGovernance rt adapters request s0 =
     (Inl (Error (''Governance evaluation failed: '' @ catch_message e)), s')"
proof -
  let ?s = "case c of Inl e \<Rightarrow> s2\<lparr>trace := trace s2 @ [ConsoleWarn e]\<rparr> | Inr f \<Rightarrow> s2"
  let ?cost = "case c of Inl e \<Rightarrow> None | Inr f \<Rightarrow> Some f"
  have w: "world ?s = world s2"
    and t: "trace ?s = trace s2 @ (case c of Inl e \<Rightarrow> [ConsoleWarn e] | Inr f \<Rightarrow> [])"
    by (simp_all split: sum.splits)
  have "evaluateGovernance_report rt adapters request (policyResults_of payload) ?cost ?s = (Inl e, s')"
    using assms(5-9)
    by (intro evaluateGovernance_report_emission_failure) (simp_all only: w t append_assoc)
  then have "evaluateGovernance_try rt adapters request s0 = (Inl e, s')"
    using assms(1-4)
    by (simp add: evaluateGovernance_try_def invoke_def Let_def split: sum.splits)
  then show ?thesis by (rule evaluateGovernance_catch)
qed


text \<open>
  Claim C5, amended. A failure that a collaborator reports in its result envelope
  (\<open>success\<close> false) is fatal, and reaches the caller as an error wrapped with the
  operation's prefix, for the calls whose envelope the operation inspects: the policy call
  in \<open>evaluateGovernance\<close>; the schema validation in \<open>emitAuditSignal\<close>, and with it the
  audit step of \<open>evaluateGovernance\<close>, whose error then carries both prefixes; and the
  cost-metrics and forecast calls in \<open>getFinOpsSummary\<close> called as an operation of its
  own. The envelope of the analytics \<open>track\<close> call in \<open>evaluateGovernance\<close> is awaited and
  not inspected: \<open>success\<close> false there does not fail the operation, which goes on to the
  audit step and returns the decision when that step succeeds. A roles lookup that reports
  failure makes \<open>resolveRBAC\<close> return the context without roles and permissions, not an
  error.
\<close>

theorem inspected_envelope_failures_are_fatal:
  "(evaluatePolicy (policyEngine adapters) (policyRequest_of request) (world s0) = (Inr presp, w1)
      \<and> \<not> success presp \<longrightarrow>
      evaluateGovernance rt adapters request s0 =
        (Inl (Error (''Governance evaluation failed: ''
               @ (case AdapterResponse.error presp of
                    None \<Rightarrow> ''Policy evaluation failed''
                  | Some m \<Rightarrow> if m = [] then ''Policy evaluation failed'' else m))),
         \<lparr>world = w1, trace = trace s0 @ [CallEvaluatePolicy (policyRequest_of request)]\<rparr>))
   \<and> (validate (schemaRegistry adapters) ''audit.signal.v1'' signal (world s0) = (Inr vresp, w1)
      \<and> \<not> success vresp \<longrightarrow>
      emitAuditSignal rt adapters signal s0 =
        (Inl (Error (''Audit signal emission failed: '' @ ''Audit signal validation failed: ''
               @ join '', '' (map message (case data vresp of None \<Rightarrow> [] | Some v \<Rightarrow> errors v)))),
         \<lparr>world = w1, trace = trace s0 @ [CallValidate ''audit.signal.v1'' signal]\<rparr>))
   \<and> (evaluatePolicy (policyEngine adapters) (policyRequest_of request) (world s0) = (Inr presp, w1)
      \<and> success presp \<and> data presp = Some payload
      \<and> getFinOpsSummary rt adapters (GovernanceRequest.resourceId request)
           \<lparr>world = w1, trace = trace s0 @ [CallEvaluatePolicy (policyRequest_of request)]\<rparr>
         = (c, s2)
      \<and> clock rt (world s2) = (t1, w3)
      \<and> track (analyticsHub adapters) (analyticsEvent_of request (policyResults_of payload) t1) w3
         = (Inr tresp, w4)
      \<and> clock rt w4 = (t2, w5)
      \<and> clock rt w5 = (t3, w6)
      \<and> validate (schemaRegistry adapters) ''audit.signal.v1''
           (auditSignal_of rt request (policyResults_of payload) t3) w6 = (Inr vresp, w7)
      \<and> \<not> success vresp \<longrightarrow>
      evaluateGovernance rt adapters request s0 =
        (Inl (Error (''Governance evaluation failed: '' @ ''Audit signal emission failed: ''
               @ ''Audit signal validation failed: ''
               @ join '', '' (map message (case data vresp of None \<Rightarrow> [] | Some v \<Rightarrow> errors v)))),
         \<lparr>world = w7,
          trace = trace s2 @ (case c of Inl e \<Rightarrow> [ConsoleWarn e] | Inr f \<Rightarrow> [])
                    @ [ClockRead t1,
                       CallTrack (analyticsEvent_of request (policyResults_of payload) t1),
                       ClockRead t2, ClockRead t3,
                       CallValidate ''audit.signal.v1''
                         (auditSignal_of rt request (policyResults_of payload) t3)]\<rparr>))
   \<and> (clock rt (world s0) = (now, w1)
      \<and> getCostMetrics (costOps adapters)
           \<lparr>startDate = new_Date (now - 30 * 24 * 60 * 60 * 1000), endDate = Date now,
            CostMetricsFilters.services = Some [rid], groupBy = None\<rparr> w1 = (Inr mresp, w2)
      \<and> \<not> success mresp \<longrightarrow>
      (\<exists>cause s'. getFinOpsSummary rt adapters rid s0 =
          (Inl (Error (''FinOps summary failed: '' @ cause)), s')))
   \<and> (clock rt (world s0) = (now, w1)
      \<and> getCostMetrics (costOps adapters)
           \<lparr>startDate = new_Date (now - 30 * 24 * 60 * 60 * 1000), endDate = Date now,
            CostMetricsFilters.services = Some [rid], groupBy = None\<rparr> w1 = (mcall, w2)
      \<and> getForecast (costOps adapters)
           \<lparr>horizon = num_of_rat rt 30, ForecastParams.services = Some [rid]\<rparr> w2 = (Inr fresp, w3)
      \<and> \<not> success fresp \<longrightarrow>
      (\<exists>cause s'. getFinOpsSummary rt adapters rid s0 =
          (Inl (Error (''FinOps summary failed: '' @ cause)), s')))
   \<and> (evaluatePolicy (policyEngine adapters) (policyRequest_of request) (world s0) = (Inr presp, w1)
      \<and> success presp \<and> data presp = Some payload
      \<and> getFinOpsSummary rt adapters (GovernanceRequest.resourceId request)
           \<lparr>world = w1, trace = trace s0 @ [CallEvaluatePolicy (policyRequest_of request)]\<rparr>
         = (c, s2)
      \<and> clock rt (world s2) = (t1, w3)
      \<and> track (analyticsHub adapters) (analyticsEvent_of request (policyResults_of payload) t1) w3
         = (Inr tresp, w4)
      \<and> \<not> success tresp
      \<and> clock rt w4 = (t2, w5)
      \<and> clock rt w5 = (t3, w6)
      \<and> emitAuditSignal rt adapters (auditSignal_of rt request (policyResults_of payload) t3)
           \<lparr>world = w6,
            trace = trace s2 @ (case c of Inl e \<Rightarrow> [ConsoleWarn e] | Inr f \<Rightarrow> [])
                      @ [ClockRead t1,
                         CallTrack (analyticsEvent_of request (policyResults_of payload) t1),
                         ClockRead t2, ClockRead t3]\<rparr>
         = (Inr u, s1) \<longrightarrow>
      evaluateGovernance rt adapters request s0 =
        (Inr \<lparr>GovernanceDecision.requestId = GovernanceRequest.requestId request,
              GovernanceDecision.allowed = PolicyEngineResult.allowed payload,
              policyResults = policyResults_of payload,
              costImpact = (case c of Inl e \<Rightarrow> None | Inr f \<Rightarrow> Some f),
              auditId = ''audit-'' @ GovernanceRequest.requestId request @ ''-''
                          @ Number_toString t2\<rparr>,
         s1))
   \<and> (getConfig (configManager adapters) (''rbac.roles.'' @ p) (world s0) = (Inr cresp, w1)
      \<and> \<not> success cresp \<longrightarrow>
      resolveRBAC adapters p s0 =
        (Inr \<lparr>RBACContext.principal = p, roles = [], permissions = [], scope = None\<rparr>,
         \<lparr>world = w1, trace = trace s0 @ [CallGetConfig (''rbac.roles.'' @ p)]\<rparr>))"
proof (intro conjI impI; (elim conjE)?)
  assume "evaluatePolicy (policyEngine adapters) (policyRequest_of request) (world s0) = (Inr presp, w1)"
    and "\<not> success presp"
  then have "evaluateGovernance_try rt adapters request s0 =
     (Inl (Error (or_default (AdapterResponse.error presp) ''Policy evaluation failed'')),
      \<lparr>world = w1, trace = trace s0 @ [CallEvaluatePolicy (policyRequest_of request)]\<rparr>)"
    by (rule evaluateGovernance_try_policy_failure [OF _ disjI1])
  from evaluateGovernance_catch [OF this]
  show "evaluateGovernance rt adapters request s0 =
        (Inl (Error (''Governance evaluation failed: ''
               @ (case AdapterResponse.error presp of
                    None \<Rightarrow> ''Policy evaluation failed''
                  | Some m \<Rightarrow> if m = [] then ''Policy evaluation failed'' else m))),
         \<lparr>world = w1, trace = trace s0 @ [CallEvaluatePolicy (policyRequest_of request)]\<rparr>)"
    by (simp add: or_default_def)
next
  assume "validate (schemaRegistry adapters) ''audit.signal.v1'' signal (world s0) = (Inr vresp, w1)"
    and "\<not> success vresp"
  then have "emitAuditSignal_try rt adapters signal s0 =
     (Inl (Error (''Audit signal validation failed: ''
            @ join '', '' (map message (case data vresp of None \<Rightarrow> [] | Some v \<Rightarrow> errors v)))),
      \<lparr>world = w1, trace = trace s0 @ [CallValidate ''audit.signal.v1'' signal]\<rparr>)"
    by (rule emitAuditSignal_try_validation_failure [OF _ disjI1])
  from emitAuditSignal_catch [OF this]
  show "emitAuditSignal rt adapters signal s0 =
        (Inl (Error (''Audit signal emission failed: '' @ ''Audit signal validation failed: ''
               @ join '', '' (map message (case data vresp of None \<Rightarrow> [] | Some v \<Rightarrow> errors v)))),
         \<lparr>world = w1, trace = trace s0 @ [CallValidate ''audit.signal.v1'' signal]\<rparr>)"
    by simp
next
  let ?signal = "auditSignal_of rt request (policyResults_of payload) t3"
  let ?before = "\<lparr>world = w6,
            trace = trace s2 @ (case c of Inl e \<Rightarrow> [ConsoleWarn e] | Inr f \<Rightarrow> [])
                      @ [ClockRead t1,
                         CallTrack (analyticsEvent_of request (policyResults_of payload) t1),
                         ClockRead t2, ClockRead t3]\<rparr>"
  let ?cause = "Error (''Audit signal validation failed: ''
            @ join '', '' (map message (case data vresp of None \<Rightarrow> [] | Some v \<Rightarrow> errors v)))"
  assume chain:
    "evaluatePolicy (policyEngine adapters) (policyRequest_of request) (world s0) = (Inr presp, w1)"
    "success presp" "data presp = Some payload"
    "getFinOpsSummary rt adapters (GovernanceRequest.resourceId request)
           \<lparr>world = w1, trace = trace s0 @ [CallEvaluatePolicy (policyRequest_of request)]\<rparr>
         = (c, s2)"
    "clock rt (world s2) = (t1, w3)"
    "track (analyticsHub adapters) (analyticsEvent_of request (policyResults_of payload) t1) w3
         = (Inr tresp, w4)"
    "clock rt w4 = (t2, w5)"
    "clock rt w5 = (t3, w6)"
    and v: "validate (schemaRegistry adapters) ''audit.signal.v1'' ?signal w6 = (Inr vresp, w7)"
    and f: "\<not> success vresp"
  from v have "validate (schemaRegistry adapters) ''audit.signal.v1'' ?signal (world ?before)
                 = (Inr vresp, w7)"
    by simp
  from emitAuditSignal_catch [OF emitAuditSignal_try_validation_failure [OF this disjI1 [OF f]], of rt]
  have "emitAuditSignal rt adapters ?signal ?before =
     (Inl (Error (''Audit signal emission failed: '' @ catch_message ?cause)),
      \<lparr>world = w7, trace = trace ?before @ [CallValidate ''audit.signal.v1'' ?signal]\<rparr>)" .
  from evaluateGovernance_emission_failure [OF chain this]
  show "evaluateGovernance rt adapters request s0 =
        (Inl (Error (''Governance evaluation failed: '' @ ''Audit signal emission failed: ''
               @ ''Audit signal validation failed: ''
               @ join '', '' (map message (case data vresp of None \<Rightarrow> [] | Some v \<Rightarrow> errors v)))),
         \<lparr>world = w7,
          trace = trace s2 @ (case c of Inl e \<Rightarrow> [ConsoleWarn e] | Inr f \<Rightarrow> [])
                    @ [ClockRead t1,
                       CallTrack (analyticsEvent_of request (policyResults_of payload) t1),
                       ClockRead t2, ClockRead t3,
                       CallValidate ''audit.signal.v1'' ?signal]\<rparr>)"
    by simp
next
  assume "clock rt (world s0) = (now, w1)"
    and "getCostMetrics (costOps adapters)
           \<lparr>startDate = new_Date (now - 30 * 24 * 60 * 60 * 1000), endDate = Date now,
            CostMetricsFilters.services = Some [rid], groupBy = None\<rparr> w1 = (Inr mresp, w2)"
    and "\<not> success mresp"
  then show "\<exists>cause s'. getFinOpsSummary rt adapters rid s0 =
          (Inl (Error (''FinOps summary failed: '' @ cause)), s')"
    by (rule getFinOpsSummary_metrics_failure [OF _ _ disjI1])
next
  assume "clock rt (world s0) = (now, w1)"
    and "getCostMetrics (costOps adapters)
           \<lparr>startDate = new_Date (now - 30 * 24 * 60 * 60 * 1000), endDate = Date now,
            CostMetricsFilters.services = Some [rid], groupBy = None\<rparr> w1 = (mcall, w2)"
    and "getForecast (costOps adapters)
           \<lparr>horizon = num_of_rat rt 30, ForecastParams.services = Some [rid]\<rparr> w2 = (Inr fresp, w3)"
    and "\<not> success fresp"
  then show "\<exists>cause s'. getFinOpsSummary rt adapters rid s0 =
          (Inl (Error (''FinOps summary failed: '' @ cause)), s')"
    by (rule getFinOpsSummary_forecast_failure [OF _ _ _ disjI1])
next
  assume "evaluatePolicy (policyEngine adapters) (policyRequest_of request) (world s0) = (Inr presp, w1)"
    and "success presp" and "data presp = Some payload"
    and "getFinOpsSummary rt adapters (GovernanceRequest.resourceId request)
           \<lparr>world = w1, trace = trace s0 @ [CallEvaluatePolicy (policyRequest_of request)]\<rparr>
         = (c, s2)"
    and "clock rt (world s2) = (t1, w3)"
    and "track (analyticsHub adapters) (analyticsEvent_of request (policyResults_of payload) t1) w3
         = (Inr tresp, w4)"
    and "\<not> success tresp"
    and "clock rt w4 = (t2, w5)"
    and "clock rt w5 = (t3, w6)"
    and "emitAuditSignal rt adapters (auditSignal_of rt request (policyResults_of payload) t3)
           \<lparr>world = w6,
            trace = trace s2 @ (case c of Inl e \<Rightarrow> [ConsoleWarn e] | Inr f \<Rightarrow> [])
                      @ [ClockRead t1,
                         CallTrack (analyticsEvent_of request (policyResults_of payload) t1),
                         ClockRead t2, ClockRead t3]\<rparr>
         = (Inr u, s1)"
  from evaluateGovernance_success [OF this(1-6) this(8-10)]
  show "evaluateGovernance rt adapters request s0 =
        (Inr \<lparr>GovernanceDecision.requestId = GovernanceRequest.requestId request,
              GovernanceDecision.allowed = PolicyEngineResult.allowed payload,
              policyResults = policyResults_of payload,
              costImpact = (case c of Inl e \<Rightarrow> None | Inr f \<Rightarrow> Some f),
              auditId = ''audit-'' @ GovernanceRequest.requestId request @ ''-''
                          @ Number_toString t2\<rparr>,
         s1)" .
next
  assume "getConfig (configManager adapters) (''rbac.roles.'' @ p) (world s0) = (Inr cresp, w1)"
    and "\<not> success cresp"
  then show "resolveRBAC adapters p s0 =
        (Inr \<lparr>RBACContext.principal = p, roles = [], permissions = [], scope = None\<rparr>,
         \<lparr>world = w1, trace = trace s0 @ [CallGetConfig (''rbac.roles.'' @ p)]\<rparr>)"
    by (auto simp: resolveRBAC_def resolveRBAC_try_def invoke_def)
qed

text \<open>
  The amended claim on the test collaborators, one failing collaborator at a time.
\<close>

theorem inspected_envelope_failures_are_fatal_witness:
  "fst (evaluateGovernance test_runtime policyDown testRequest start) =
      Inl (Error ''Governance evaluation failed: Policy engine unavailable'')
   \<and> fst (emitAuditSignal test_runtime schemaDown testSignal start) =
      Inl (Error ''Audit signal emission failed: Audit signal validation failed: '')
   \<and> fst (evaluateGovernance test_runtime schemaDown testRequest start) =
      Inl (Error (''Governance evaluation failed: Audit signal emission failed: ''
                  @ ''Audit signal validation failed: ''))
   \<and> (\<exists>cause s'. getFinOpsSummary test_runtime costDown ''resource-abc'' start =
        (Inl (Error (''FinOps summary failed: '' @ cause)), s'))
   \<and> (\<exists>cause s'. getFinOpsSummary test_runtime forecastDown ''resource-abc'' start =
        (Inl (Error (''FinOps summary failed: '' @ cause)), s'))
   \<and> fst (evaluateGovernance test_runtime analyticsDown testRequest start) =
      Inr \<lparr>GovernanceDecision.requestId = ''req-123'',
           GovernanceDecision.allowed = True,
           policyResults = \<lparr>PolicyEvaluationResult.allowed = True,
                            policies = [''policy-1'', ''policy-2''],
                            PolicyEvaluationResult.reasons = [''Read access granted'']\<rparr>,
           costImpact = Some \<lparr>FinOpsSummary.resourceId = ''resource-abc'', currentCost = 100,
                               forecast = 110, budgetStatus = ''within''\<rparr>,
           auditId = ''audit-req-123-1700000000002''\<rparr>
   \<and> fst (resolveRBAC mockAdapters ''unknown-user'' start) =
      Inr \<lparr>RBACContext.principal = ''unknown-user'', roles = [], permissions = [], scope = None\<rparr>"
proof -
  note fatal = inspected_envelope_failures_are_fatal
  let ?down = "\<lambda>msg. \<lparr>success = False, data = None, error = Some msg\<rparr>"
  let ?filters = "\<lparr>startDate = new_Date (1700000000000 - 30 * 24 * 60 * 60 * 1000),
                   endDate = Date 1700000000000,
                   CostMetricsFilters.services = Some [''resource-abc''], groupBy = None\<rparr>"
  let ?params = "\<lparr>horizon = num_of_rat test_runtime 30,
                  ForecastParams.services = Some [''resource-abc'']\<rparr>"
  let ?P = "\<lparr>PolicyEngineResult.allowed = True,
             PolicyEngineResult.reasons = [''Read access granted''],
             appliedPolicies = [''policy-1'', ''policy-2''],
             conditions = None\<rparr> :: rat PolicyEngineResult"
  let ?presp = "\<lparr>success = True, data = Some ?P, error = None\<rparr>"
  let ?s1 = "\<lparr>world = 0, trace = trace start @ [CallEvaluatePolicy (policyRequest_of testRequest)]\<rparr>
              :: (rat, nat) state"
  have ok: "success ?presp" "data ?presp = Some ?P"
    by simp_all
  have c2: "clock test_runtime 2 = (1700000000002, 3)"
    and c3: "clock test_runtime 3 = (1700000000003, 4)"
    by (simp_all add: test_runtime_def)

  have "evaluatePolicy (policyEngine policyDown) (policyRequest_of testRequest) (world start)
          = (Inr (?down ''Policy engine unavailable''), 0)
        \<and> \<not> success (?down ''Policy engine unavailable'' :: rat PolicyEngineResult AdapterResponse)"
    by (simp add: policyDown_def failed_def start_def)
  from fatal [THEN conjunct1, THEN mp, OF this, of test_runtime]
  have p1: "fst (evaluateGovernance test_runtime policyDown testRequest start) =
      Inl (Error ''Governance evaluation failed: Policy engine unavailable'')"
    by simp

  have "validate (schemaRegistry schemaDown) ''audit.signal.v1'' testSignal (world start)
          = (Inr (?down ''Schema registry unavailable''), 0)
        \<and> \<not> success (?down ''Schema registry unavailable'' :: ValidationResult AdapterResponse)"
    by (simp add: schemaDown_def failed_def start_def)
  from fatal [THEN conjunct2, THEN conjunct1, THEN mp, OF this, of test_runtime]
  have p2: "fst (emitAuditSignal test_runtime schemaDown testSignal start) =
      Inl (Error ''Audit signal emission failed: Audit signal validation failed: '')"
    by simp

  let ?finS = "getFinOpsSummary test_runtime schemaDown (GovernanceRequest.resourceId testRequest) ?s1"
  have s1: "evaluatePolicy (policyEngine schemaDown) (policyRequest_of testRequest) (world start)
      = (Inr ?presp, 0)"
    by (simp add: schemaDown_def mock_defs policyRequest_of_def)
  have s4: "?finS = (fst ?finS, snd ?finS)"
    by simp
  have s5: "clock test_runtime (world (snd ?finS)) = (1700000000001, 2)"
    by (simp add: schemaDown_def mock_defs run_defs)
  have s6: "track (analyticsHub schemaDown)
              (analyticsEvent_of testRequest (policyResults_of ?P) 1700000000001) 2
            = (Inr \<lparr>success = True, data = None, error = None\<rparr>, 2)"
    by (simp add: schemaDown_def mock_defs)
  have s9: "validate (schemaRegistry schemaDown) ''audit.signal.v1''
              (auditSignal_of test_runtime testRequest (policyResults_of ?P) 1700000000003) 4
            = (Inr (?down ''Schema registry unavailable''), 4)"
    by (simp add: schemaDown_def failed_def)
  have s10: "\<not> success (?down ''Schema registry unavailable'' :: ValidationResult AdapterResponse)"
    by simp
  note anteS = conjI [OF s1 conjI [OF ok(1) conjI [OF ok(2) conjI [OF s4 conjI [OF s5
                 conjI [OF s6 conjI [OF c2 conjI [OF c3 conjI [OF s9 s10]]]]]]]]]
  from fatal [THEN conjunct2, THEN conjunct2, THEN conjunct1, THEN mp, OF anteS]
  have p3: "fst (evaluateGovernance test_runtime schemaDown testRequest start) =
      Inl (Error (''Governance evaluation failed: Audit signal emission failed: ''
                  @ ''Audit signal validation failed: ''))"
    by simp

  have "clock test_runtime (world start) = (1700000000000, 1)
        \<and> getCostMetrics (costOps costDown) ?filters 1 = (Inr (?down ''CostOps unavailable''), 1)
        \<and> \<not> success (?down ''CostOps unavailable'' :: rat CostMetrics AdapterResponse)"
    by (simp add: costDown_def failed_def test_runtime_def start_def)
  then have p4: "\<exists>cause s'. getFinOpsSummary test_runtime costDown ''resource-abc'' start =
        (Inl (Error (''FinOps summary failed: '' @ cause)), s')"
    by (rule fatal [THEN conjunct2, THEN conjunct2, THEN conjunct2, THEN conjunct1, THEN mp])

  have "clock test_runtime (world start) = (1700000000000, 1)
        \<and> getCostMetrics (costOps forecastDown) ?filters 1
          = (fst (getCostMetrics (costOps forecastDown) ?filters 1), 1)
        \<and> getForecast (costOps forecastDown) ?params 1 = (Inr (?down ''Forecast unavailable''), 1)
        \<and> \<not> success (?down ''Forecast unavailable'' :: rat CostForecast AdapterResponse)"
    by (simp add: forecastDown_def MockCostOpsAdapter_def ok_def failed_def test_runtime_def
        start_def)
  then have p5: "\<exists>cause s'. getFinOpsSummary test_runtime forecastDown ''resource-abc'' start =
        (Inl (Error (''FinOps summary failed: '' @ cause)), s')"
    by (rule fatal [THEN conjunct2, THEN conjunct2, THEN conjunct2, THEN conjunct2,
                    THEN conjunct1, THEN mp])

  let ?fin = "getFinOpsSummary test_runtime analyticsDown (GovernanceRequest.resourceId testRequest) ?s1"
  let ?em = "emitAuditSignal test_runtime analyticsDown
               (auditSignal_of test_runtime testRequest (policyResults_of ?P) 1700000000003)
               \<lparr>world = 4,
                trace = trace (snd ?fin) @ (case fst ?fin of Inl e \<Rightarrow> [ConsoleWarn e] | Inr f \<Rightarrow> [])
                      @ [ClockRead 1700000000001,
                         CallTrack (analyticsEvent_of testRequest (policyResults_of ?P) 1700000000001),
                         ClockRead 1700000000002, ClockRead 1700000000003]\<rparr>"
  have h1: "evaluatePolicy (policyEngine analyticsDown) (policyRequest_of testRequest) (world start)
      = (Inr ?presp, 0)"
    by (simp add: analyticsDown_def mock_defs policyRequest_of_def)
  have h4: "?fin = (fst ?fin, snd ?fin)"
    by simp
  have h5: "clock test_runtime (world (snd ?fin)) = (1700000000001, 2)"
    by (simp add: analyticsDown_def mock_defs run_defs)
  have h6: "track (analyticsHub analyticsDown)
              (analyticsEvent_of testRequest (policyResults_of ?P) 1700000000001) 2
            = (Inr (?down ''Analytics unavailable''), 2)"
    by (simp add: analyticsDown_def failed_def)
  have h7: "\<not> success (?down ''Analytics unavailable'' :: unit AdapterResponse)"
    by simp
  have "fst ?em = Inr ()"
    by (simp add: analyticsDown_def mock_defs run_defs)
  then have h10: "?em = (Inr (), snd ?em)"
    by (simp add: prod_eq_iff)
  have cost: "fst ?fin = Inr \<lparr>FinOpsSummary.resourceId = ''resource-abc'', currentCost = 100,
                               forecast = 110, budgetStatus = ''within''\<rparr>"
    by (simp add: analyticsDown_def mock_defs run_defs)
  have rq: "GovernanceRequest.requestId testRequest = ''req-123''"
    by (simp add: testRequest_def)
  note anteA = conjI [OF h1 conjI [OF ok(1) conjI [OF ok(2) conjI [OF h4 conjI [OF h5
                 conjI [OF h6 conjI [OF h7 conjI [OF c2 conjI [OF c3 h10]]]]]]]]]
  from fatal [THEN conjunct2, THEN conjunct2, THEN conjunct2, THEN conjunct2,
              THEN conjunct2, THEN conjunct1, THEN mp, OF anteA]
  have p6: "fst (evaluateGovernance test_runtime analyticsDown testRequest start) =
      Inr \<lparr>GovernanceDecision.requestId = ''req-123'',
           GovernanceDecision.allowed = True,
           policyResults = \<lparr>PolicyEvaluationResult.allowed = True,
                            policies = [''policy-1'', ''policy-2''],
                            PolicyEvaluationResult.reasons = [''Read access granted'']\<rparr>,
           costImpact = Some \<lparr>FinOpsSummary.resourceId = ''resource-abc'', currentCost = 100,
                               forecast = 110, budgetStatus = ''within''\<rparr>,
           auditId = ''audit-req-123-1700000000002''\<rparr>"
    by (simp add: cost rq policyResults_of_def Number_toString_example)

  have "getConfig (configManager mockAdapters) (''rbac.roles.'' @ ''unknown-user'') (world start)
          = (Inr (?down ''Config not found''), 0)
        \<and> \<not> success (?down ''Config not found'' :: ConfigValue AdapterResponse)"
    by (simp add: mock_defs)
  from fatal [THEN conjunct2, THEN conjunct2, THEN conjunct2, THEN conjunct2,
              THEN conjunct2, THEN conjunct2, THEN mp, OF this]
  have p7: "fst (resolveRBAC mockAdapters ''unknown-user'' start) =
      Inr \<lparr>RBACContext.principal = ''unknown-user'', roles = [], permissions = [], scope = None\<rparr>"
    by simp
  from p1 p2 p3 p4 p5 p6 p7 show ?thesis
    by blast
qed

end
